theory Spec2Isabelle
  imports Complex_Main "HOL-Library.Sublist" "HOL-Library.Log_Nat"
begin

section \<open>Strings as the interpreter handles them\<close>

text \<open>
  A string is a list of characters with code points below 256. The helpers below are the
  string methods the source calls: \<open>str.strip()\<close>, \<open>str.split(sep)\<close>, \<open>str.isdigit()\<close>,
  \<open>str.startswith\<close>, \<open>in\<close>, and the character classes of the regular expressions.
\<close>

definition py_isspace :: "char \<Rightarrow> bool" where
  "py_isspace c \<longleftrightarrow>
     c \<in> set [CHR 0x09, CHR 0x0A, CHR 0x0B, CHR 0x0C, CHR 0x0D,
               CHR 0x1C, CHR 0x1D, CHR 0x1E, CHR 0x1F, CHR 0x20, CHR 0x85, CHR 0xA0]"

definition py_isdigit_char :: "char \<Rightarrow> bool" where
  "py_isdigit_char c \<longleftrightarrow> c \<in> set ''0123456789''"

definition py_isalpha_char :: "char \<Rightarrow> bool" where
  "py_isalpha_char c \<longleftrightarrow>
     c \<in> set ''abcdefghijklmnopqrstuvwxyzABCDEFGHIJKLMNOPQRSTUVWXYZ''"

definition strip :: "string \<Rightarrow> string" where
  "strip s = rev (dropWhile py_isspace (rev (dropWhile py_isspace s)))"

fun split_on :: "char \<Rightarrow> string \<Rightarrow> string list" where
  "split_on c [] = [[]]"
| "split_on c (x # xs) =
     (if x = c then [] # split_on c xs
      else (case split_on c xs of [] \<Rightarrow> [[x]] | y # ys \<Rightarrow> (x # y) # ys))"

text \<open>
  \<open>str.isdigit()\<close> accepts the decimal digits and the superscript digits (0xB2, 0xB3,
  0xB9), and needs one character at least.
\<close>

definition str_isdigit_char :: "char \<Rightarrow> bool" where
  "str_isdigit_char c \<longleftrightarrow> py_isdigit_char c \<or> c \<in> set [CHR 0xB2, CHR 0xB3, CHR 0xB9]"

definition isdigit :: "string \<Rightarrow> bool" where
  "isdigit s \<longleftrightarrow> s \<noteq> [] \<and> list_all str_isdigit_char s"

definition all_decimal :: "string \<Rightarrow> bool" where
  "all_decimal s \<longleftrightarrow> s \<noteq> [] \<and> list_all py_isdigit_char s"

definition digit_val :: "char \<Rightarrow> int" where
  "digit_val c = of_char c - 48"

definition int_of_digits :: "string \<Rightarrow> int" where
  "int_of_digits s = foldl (\<lambda>acc c. 10 * acc + digit_val c) 0 s"

text \<open>
  \<open>int(s)\<close> on a string without sign, blanks or underscores: it raises \<open>ValueError\<close>
  on the empty string, on a character that is no decimal digit, and on more digits than
  the interpreter's limit for the conversion, 4300 by default, leading zeros counted.
\<close>

definition int_max_str_digits :: nat where
  "int_max_str_digits = 4300"

text \<open>\<open>str(n)\<close>, as the f-strings format an integer.\<close>

fun str_of_nat :: "nat \<Rightarrow> string" where
  "str_of_nat n =
     (if n < 10 then [''0123456789'' ! n]
      else str_of_nat (n div 10) @ [''0123456789'' ! (n mod 10)])"

declare str_of_nat.simps [simp del]

definition str_of_int :: "int \<Rightarrow> string" where
  "str_of_int i = (if i < 0 then CHR ''-'' # str_of_nat (nat (- i)) else str_of_nat (nat i))"

definition startswith :: "string \<Rightarrow> string \<Rightarrow> bool" where
  "startswith s p \<longleftrightarrow> prefix p s"

section \<open>Values and numeric conversions of the interpreter\<close>

text \<open>
  The values that reach the validation and control code: \<open>None\<close>, booleans, unbounded
  integers, floats and strings, and the \<open>RECT\<close> a monitor callback stores. A float is
  a binary64 number: a finite value is carried as the rational it denotes, next to the
  infinities and NaN. Every rational is admitted as a finite value, which only adds inputs.
\<close>

datatype pyfloat = Finite rat | PosInf | NegInf | NaN

datatype pyerror = ValueError | TypeError | OverflowError

definition py_int :: "string \<Rightarrow> pyerror + int" where
  "py_int s =
     (if \<not> all_decimal s then Inl ValueError
      else if int_max_str_digits < length s then Inl ValueError
      else Inr (int_of_digits s))"

datatype pyval =
    PyNone
  | PyBool bool
  | PyInt int
  | PyFloat pyfloat
  | PyStr string
  | PyRect int int int int

text \<open>Comparison \<open>x <= y\<close> of floats: false as soon as one side is NaN.\<close>

fun float_le :: "pyfloat \<Rightarrow> pyfloat \<Rightarrow> bool" where
  "float_le NaN _ = False"
| "float_le _ NaN = False"
| "float_le NegInf _ = True"
| "float_le _ PosInf = True"
| "float_le (Finite a) (Finite b) = (a \<le> b)"
| "float_le (Finite a) NegInf = False"
| "float_le PosInf _ = False"

subsection \<open>Rounding to binary64\<close>

text \<open>
  \<open>ilog2 a\<close> is the binary exponent of a positive rational: \<open>2 ^ k \<le> a < 2 ^ (k + 1)\<close>.
  \<open>round_double\<close> rounds to the nearest binary64 value, ties to the even significand,
  with gradual underflow below \<open>2 ^ -1022\<close> and overflow to an infinity.
\<close>

definition ilog2 :: "rat \<Rightarrow> int" where
  "ilog2 a =
     (let (p, d) = quotient_of a; k = bitlen p - bitlen d
      in if 2 powi k \<le> a then k else k - 1)"

definition round_half_even :: "rat \<Rightarrow> int" where
  "round_half_even x =
     (let f = \<lfloor>x\<rfloor>; r = x - of_int f
      in if r < 1 / 2 then f
         else if 1 / 2 < r then f + 1
         else if even f then f else f + 1)"

definition round_double :: "rat \<Rightarrow> pyfloat" where
  "round_double q =
     (if q = 0 then Finite 0
      else
        let a = \<bar>q\<bar>;
            e = max (ilog2 a) (- 1022);
            ulp = 2 powi (e - 52);
            r = of_int (round_half_even (a / ulp)) * ulp
        in if 2 powi 1024 \<le> r then (if 0 < q then PosInf else NegInf)
           else Finite (if 0 < q then r else - r))"

subsection \<open>\<open>float(x)\<close> and \<open>int(x)\<close>\<close>

definition lower_char :: "char \<Rightarrow> char" where
  "lower_char c =
     (case map_of (zip ''ABCDEFGHIJKLMNOPQRSTUVWXYZ'' ''abcdefghijklmnopqrstuvwxyz'') c of
        None \<Rightarrow> c | Some l \<Rightarrow> l)"

text \<open>
  Underscores in a numeric literal are allowed between two digits only; the pass removes
  them and fails on any other underscore.
\<close>

fun strip_underscores :: "char \<Rightarrow> string \<Rightarrow> string option" where
  "strip_underscores prev [] = (if prev = CHR ''_'' then None else Some [])"
| "strip_underscores prev (c # cs) =
     (if c = CHR ''_'' then
        (if py_isdigit_char prev then strip_underscores c cs else None)
      else if prev = CHR ''_'' \<and> \<not> py_isdigit_char c then None
      else map_option ((#) c) (strip_underscores c cs))"

definition decimal_value :: "string \<Rightarrow> string \<Rightarrow> int \<Rightarrow> rat" where
  "decimal_value ip fp e =
     of_int (int_of_digits (ip @ fp)) * 10 powi (e - int (length fp))"

text \<open>
  An unsigned decimal literal: digits, an optional point and digits (one digit at least on
  either side), an optional exponent \<open>e\<close> or \<open>E\<close> with an optional sign and one digit
  at least. The whole string must be consumed.
\<close>

definition parse_decimal :: "string \<Rightarrow> rat option" where
  "parse_decimal s =
     (let ip = takeWhile py_isdigit_char s;
          r1 = dropWhile py_isdigit_char s;
          (fp, r2) =
            (case r1 of
               [] \<Rightarrow> ([], [])
             | c # t \<Rightarrow>
                 if c = CHR ''.''
                 then (takeWhile py_isdigit_char t, dropWhile py_isdigit_char t)
                 else ([], r1))
      in if ip = [] \<and> fp = [] then None
         else
           (case r2 of
              [] \<Rightarrow> Some (decimal_value ip fp 0)
            | c # t \<Rightarrow>
                if c = CHR ''e'' \<or> c = CHR ''E'' then
                  (let (neg, ds) =
                     (case t of
                        [] \<Rightarrow> (False, [])
                      | x # u \<Rightarrow>
                          if x = CHR ''-'' then (True, u)
                          else if x = CHR ''+'' then (False, u)
                          else (False, t))
                   in if all_decimal ds
                      then Some (decimal_value ip fp
                                   (if neg then - int_of_digits ds else int_of_digits ds))
                      else None)
                else None))"

text \<open>
  \<open>float\<close> on a string removes the blanks around the literal (space, tab, line feed,
  vertical tab, form feed, carriage return, 0x85 and 0xA0), then checks the
  underscores, then reads a sign and either \<open>inf\<close>, \<open>infinity\<close> or \<open>nan\<close> in any
  case, or a decimal literal, which is rounded to binary64.
\<close>

definition c_isspace :: "char \<Rightarrow> bool" where
  "c_isspace c \<longleftrightarrow>
     c \<in> set [CHR 0x09, CHR 0x0A, CHR 0x0B, CHR 0x0C, CHR 0x0D, CHR 0x20,
               CHR 0x85, CHR 0xA0]"

definition c_strip :: "string \<Rightarrow> string" where
  "c_strip s = rev (dropWhile c_isspace (rev (dropWhile c_isspace s)))"

definition float_of_string :: "string \<Rightarrow> pyerror + pyfloat" where
  "float_of_string s =
     (case strip_underscores (CHR 0x00) (c_strip s) of
        None \<Rightarrow> Inl ValueError
      | Some u \<Rightarrow>
          let (neg, body) =
            (case u of
               [] \<Rightarrow> (False, [])
             | x # t \<Rightarrow>
                 if x = CHR ''-'' then (True, t)
                 else if x = CHR ''+'' then (False, t)
                 else (False, u))
          in if map lower_char body = ''inf'' \<or> map lower_char body = ''infinity''
             then Inr (if neg then NegInf else PosInf)
             else if map lower_char body = ''nan'' then Inr NaN
             else
               (case parse_decimal body of
                  None \<Rightarrow> Inl ValueError
                | Some q \<Rightarrow> Inr (round_double (if neg then - q else q))))"

text \<open>
  \<open>float(x)\<close>: an integer too large for a binary64 raises \<open>OverflowError\<close>, a string
  that is no literal raises \<open>ValueError\<close> (a literal too large gives an infinity), and
  \<open>None\<close> or a structure raises \<open>TypeError\<close>.
\<close>

fun py_float :: "pyval \<Rightarrow> pyerror + pyfloat" where
  "py_float PyNone = Inl TypeError"
| "py_float (PyBool b) = Inr (Finite (if b then 1 else 0))"
| "py_float (PyInt n) =
     (case round_double (of_int n) of
        Finite r \<Rightarrow> Inr (Finite r)
      | _ \<Rightarrow> Inl OverflowError)"
| "py_float (PyFloat d) = Inr d"
| "py_float (PyStr s) = float_of_string s"
| "py_float (PyRect _ _ _ _) = Inl TypeError"

text \<open>\<open>int(d)\<close> on a float truncates toward zero.\<close>

fun py_int_of_float :: "pyfloat \<Rightarrow> pyerror + int" where
  "py_int_of_float (Finite q) = Inr (if 0 \<le> q then \<lfloor>q\<rfloor> else \<lceil>q\<rceil>)"
| "py_int_of_float NaN = Inl ValueError"
| "py_int_of_float PosInf = Inl OverflowError"
| "py_int_of_float NegInf = Inl OverflowError"

section \<open>Security manager\<close>

definition safe_brightness_range :: "int \<times> int" where
  "safe_brightness_range = (0, 100)"

text \<open>
  \<open>SecurityManager.validate_brightness_value\<close> of the modular version: \<open>ValueError\<close>
  and \<open>TypeError\<close> are caught, any other exception of \<open>float\<close> leaves the call.
\<close>

definition validate_brightness_value :: "pyval \<Rightarrow> pyerror + bool" where
  "validate_brightness_value v =
     (case py_float v of
        Inl e \<Rightarrow> (if e = ValueError \<or> e = TypeError then Inr False else Inl e)
      | Inr numeric_value \<Rightarrow>
          Inr (float_le (Finite (of_int (fst safe_brightness_range))) numeric_value \<and>
               float_le numeric_value (Finite (of_int (snd safe_brightness_range)))))"

text \<open>
  \<open>SecurityManager.validate_brightness_value\<close> of the single-file version: a bare
  \<open>except\<close> turns every exception into \<open>False\<close>.
\<close>

definition fast_validate_brightness_value :: "pyval \<Rightarrow> bool" where
  "fast_validate_brightness_value v =
     (case py_float v of
        Inl e \<Rightarrow> False
      | Inr num_val \<Rightarrow> float_le (Finite 0) num_val \<and> float_le num_val (Finite 100))"

text \<open>
  The character class \<open>[a-zA-Z0-9\s\-_=().,:/\\]\<close> shared by
  \<open>safe_powershell_pattern\<close> and by the substitution that removes every other character.
\<close>

definition safe_char :: "char \<Rightarrow> bool" where
  "safe_char c \<longleftrightarrow>
     py_isalpha_char c \<or> py_isdigit_char c \<or> py_isspace c \<or>
     c \<in> set [CHR ''-'', CHR ''_'', CHR ''='', CHR ''('', CHR '')'', CHR ''.'',
               CHR '','', CHR '':'', CHR ''/'', CHR 0x5C]"

text \<open>\<open>safe_powershell_pattern.match(part)\<close>: the anchored class, one or more times.\<close>

definition safe_powershell_pattern :: "string \<Rightarrow> bool" where
  "safe_powershell_pattern s \<longleftrightarrow> s \<noteq> [] \<and> list_all safe_char s"

definition sanitize_powershell_command :: "string list \<Rightarrow> string list" where
  "sanitize_powershell_command cmd =
     foldl (\<lambda>safe_cmd part.
              if \<not> safe_powershell_pattern part
              then safe_cmd @ [filter safe_char part]
              else safe_cmd @ [part]) [] cmd"

definition safe_namespaces :: "string list" where
  "safe_namespaces = [''root/WMI'', ''root/CIMV2'', ''root/StandardCimv2'']"

definition validate_wmi_namespace :: "string \<Rightarrow> bool" where
  "validate_wmi_namespace namespace \<longleftrightarrow> namespace \<in> set safe_namespaces"

definition safe_classes :: "string list" where
  "safe_classes = [''WmiMonitorBrightness'', ''WmiMonitorBrightnessMethods'',
                   ''Win32_DesktopMonitor'', ''Win32_VideoController'']"

definition validate_wmi_class :: "string \<Rightarrow> bool" where
  "validate_wmi_class class_name \<longleftrightarrow> class_name \<in> set safe_classes"

text \<open>
  \<open>method\<close> and \<open>parameters\<close> default to \<open>None\<close>; \<open>if method:\<close> is false for
  \<open>None\<close> and for the empty string.
\<close>

definition truthy_str :: "string option \<Rightarrow> bool" where
  "truthy_str x \<longleftrightarrow> (case x of None \<Rightarrow> False | Some s \<Rightarrow> s \<noteq> [])"

definition create_safe_wmi_command ::
  "string \<Rightarrow> string \<Rightarrow> string option \<Rightarrow> string option \<Rightarrow> string list" where
  "create_safe_wmi_command namespace class_name method parameters =
     (if \<not> validate_wmi_namespace namespace then []
      else if \<not> validate_wmi_class class_name then []
      else
        let wmi_query =
          (if truthy_str method then
             (if truthy_str parameters then
                ''(Get-WmiObject -Namespace '' @ namespace @ '' -Class '' @ class_name @ '').''
                  @ the method @ ''('' @ the parameters @ '')''
              else
                ''(Get-WmiObject -Namespace '' @ namespace @ '' -Class '' @ class_name @ '').''
                  @ the method @ ''()'')
           else ''Get-WmiObject -Namespace '' @ namespace @ '' -Class '' @ class_name)
        in sanitize_powershell_command [''powershell'', ''-Command'', wmi_query])"


section \<open>External processes\<close>

text \<open>
  \<open>subprocess.run\<close> either completes with a return code, standard output and standard
  error, or raises \<open>TimeoutExpired\<close>, or raises something else. The outcome of the
  \<open>k\<close>-th invocation on a command is given by the environment \<open>sh k cmd\<close>; the
  commands run so far are kept in order, so that the number of invocations is observable.
\<close>

datatype run_outcome =
    Completed int string string
  | TimeoutExpired
  | RunFailed

type_synonym shell = "nat \<Rightarrow> string list \<Rightarrow> run_outcome"

type_synonym calls = "string list list"

definition subprocess_run :: "shell \<Rightarrow> string list \<Rightarrow> calls \<Rightarrow> run_outcome \<times> calls" where
  "subprocess_run sh cmd cs = (sh (length cs) cmd, cs @ [cmd])"

section \<open>Display records\<close>

text \<open>A display handed to the controller is a dictionary, kept in insertion order.\<close>

type_synonym display = "(string \<times> pyval) list"

definition dict_get :: "display \<Rightarrow> string \<Rightarrow> pyval \<Rightarrow> pyval" where
  "dict_get d k dflt = (case map_of d k of None \<Rightarrow> dflt | Some v \<Rightarrow> v)"

fun dict_set :: "display \<Rightarrow> string \<Rightarrow> pyval \<Rightarrow> display" where
  "dict_set [] k v = [(k, v)]"
| "dict_set ((k', v') # d) k v = (if k' = k then (k, v) # d else (k', v') # dict_set d k v)"

definition dict_update :: "display \<Rightarrow> display \<Rightarrow> display" where
  "dict_update d other = foldl (\<lambda>acc (k, v). dict_set acc k v) d other"

record display_info =
  di_name :: string
  di_type :: string
  di_method :: string
  di_properties :: display

definition to_dict :: "display_info \<Rightarrow> display" where
  "to_dict self =
     dict_update
       [(''name'', PyStr (di_name self)), (''type'', PyStr (di_type self)),
        (''method'', PyStr (di_method self))]
       (di_properties self)"

section \<open>Brightness strategies\<close>

definition newline :: char where
  "newline = CHR 0x0A"

text \<open>
  The loop of \<open>WMIBrightnessController.get_brightness\<close> over the output lines: a line
  that is a digit string, else a line with a colon whose second field is a digit string.
  The digit string goes to \<open>int\<close>, whose exception ends the loop.
\<close>

fun scan_brightness_lines :: "string list \<Rightarrow> pyerror + int option" where
  "scan_brightness_lines [] = Inr None"
| "scan_brightness_lines (line # lines) =
     (let line_stripped = strip line in
      if line_stripped \<noteq> [] \<and> isdigit line_stripped
      then (case py_int line_stripped of
              Inl e \<Rightarrow> Inl e
            | Inr brightness \<Rightarrow> Inr (Some brightness))
      else if CHR '':'' \<in> set line_stripped then
        (let parts = split_on (CHR '':'') line_stripped in
         if 2 \<le> length parts \<and> isdigit (strip (parts ! 1))
         then (case py_int (strip (parts ! 1)) of
                 Inl e \<Rightarrow> Inl e
               | Inr brightness \<Rightarrow> Inr (Some brightness))
         else scan_brightness_lines lines)
      else scan_brightness_lines lines)"

text \<open>
  \<open>WMIBrightnessController.get_brightness\<close>: everything from the construction of the
  command on stands in one \<open>try\<close>, and every exception yields \<open>None\<close>.
\<close>

definition wmi_get_brightness :: "shell \<Rightarrow> display \<Rightarrow> calls \<Rightarrow> int option \<times> calls" where
  "wmi_get_brightness sh display cs =
     (let cmd = create_safe_wmi_command ''root/WMI'' ''WmiMonitorBrightness'' None None in
      if cmd = [] then (None, cs)
      else
        let cmd = cmd[length cmd - 1 := last cmd @ '' | Select-Object CurrentBrightness''];
            (result, cs') = subprocess_run sh cmd cs
        in (case result of
              Completed returncode out err \<Rightarrow>
                (if returncode = 0
                 then (case scan_brightness_lines (split_on newline (strip out)) of
                         Inl e \<Rightarrow> None
                       | Inr brightness \<Rightarrow> brightness)
                 else None, cs')
            | TimeoutExpired \<Rightarrow> (None, cs')
            | RunFailed \<Rightarrow> (None, cs')))"

text \<open>
  \<open>WMIBrightnessController.set_brightness\<close>: the validation stands before the
  \<open>try\<close>, so an exception of the validation leaves the call; everything after it is
  caught.
\<close>

definition wmi_set_brightness ::
  "shell \<Rightarrow> display \<Rightarrow> int \<Rightarrow> calls \<Rightarrow> (pyerror + bool) \<times> calls" where
  "wmi_set_brightness sh display brightness cs =
     (case validate_brightness_value (PyInt brightness) of
        Inl e \<Rightarrow> (Inl e, cs)
      | Inr valid \<Rightarrow>
          if \<not> valid then (Inr False, cs)
          else
            let cmd = create_safe_wmi_command ''root/WMI'' ''WmiMonitorBrightnessMethods''
                        (Some ''WmiSetBrightness'') (Some (''1,'' @ str_of_int brightness))
            in if cmd = [] then (Inr False, cs)
               else
                 let (result, cs') = subprocess_run sh cmd cs
                 in (case result of
                       Completed returncode out err \<Rightarrow> (Inr (returncode = 0), cs')
                     | TimeoutExpired \<Rightarrow> (Inr False, cs')
                     | RunFailed \<Rightarrow> (Inr False, cs')))"

definition ddc_get_brightness :: "display \<Rightarrow> calls \<Rightarrow> int option \<times> calls" where
  "ddc_get_brightness display cs = (let placeholder_brightness = 50 in (Some placeholder_brightness, cs))"

definition ddc_set_brightness :: "display \<Rightarrow> int \<Rightarrow> calls \<Rightarrow> (pyerror + bool) \<times> calls" where
  "ddc_set_brightness display brightness cs =
     (case validate_brightness_value (PyInt brightness) of
        Inl e \<Rightarrow> (Inl e, cs)
      | Inr valid \<Rightarrow> if \<not> valid then (Inr False, cs) else (Inr True, cs))"

section \<open>Brightness controller\<close>

text \<open>
  A strategy object offers \<open>get_brightness\<close> and \<open>set_brightness\<close>; either may raise.
  \<open>self.controllers\<close> maps a method name to its strategy.
\<close>

record controller =
  ctl_get :: "display \<Rightarrow> calls \<Rightarrow> (pyerror + int option) \<times> calls"
  ctl_set :: "display \<Rightarrow> int \<Rightarrow> calls \<Rightarrow> (pyerror + bool) \<times> calls"

definition wmi_controller :: "shell \<Rightarrow> controller" where
  "wmi_controller sh =
     \<lparr>ctl_get = (\<lambda>display cs. case wmi_get_brightness sh display cs of (r, cs') \<Rightarrow> (Inr r, cs')),
      ctl_set = wmi_set_brightness sh\<rparr>"

definition ddc_controller :: controller where
  "ddc_controller =
     \<lparr>ctl_get = (\<lambda>display cs. case ddc_get_brightness display cs of (r, cs') \<Rightarrow> (Inr r, cs')),
      ctl_set = ddc_set_brightness\<rparr>"

type_synonym registry = "(string \<times> controller) list"

definition controllers :: "shell \<Rightarrow> registry" where
  "controllers sh = [(''wmi'', wmi_controller sh), (''ddc'', ddc_controller)]"

text \<open>\<open>self.controllers.get(method)\<close>: only a string can equal one of the keys.\<close>

definition controllers_get :: "registry \<Rightarrow> pyval \<Rightarrow> controller option" where
  "controllers_get reg method =
     (case method of PyStr m \<Rightarrow> map_of reg m | _ \<Rightarrow> None)"

definition get_brightness :: "registry \<Rightarrow> display \<Rightarrow> calls \<Rightarrow> int option \<times> calls" where
  "get_brightness reg display cs =
     (if display = [] then (None, cs)
      else
        let method = dict_get display ''method'' (PyStr ''wmi'') in
        case controllers_get reg method of
          None \<Rightarrow> (None, cs)
        | Some controller \<Rightarrow>
            (case ctl_get controller display cs of
               (Inl e, cs') \<Rightarrow> (None, cs')
             | (Inr result, cs') \<Rightarrow> (result, cs')))"

text \<open>\<open>int(float(brightness))\<close>.\<close>

definition int_of_float_of :: "pyval \<Rightarrow> pyerror + int" where
  "int_of_float_of brightness =
     (case py_float brightness of Inl e \<Rightarrow> Inl e | Inr f \<Rightarrow> py_int_of_float f)"

text \<open>
  \<open>BrightnessController.set_brightness\<close>: \<open>int(float(brightness))\<close> under a handler
  for \<open>ValueError\<close> and \<open>TypeError\<close>, then the validation of the converted integer,
  then the dispatch under a handler for every exception.
\<close>

definition set_brightness ::
  "registry \<Rightarrow> display \<Rightarrow> pyval \<Rightarrow> calls \<Rightarrow> (pyerror + bool) \<times> calls" where
  "set_brightness reg display brightness cs =
     (if display = [] then (Inr False, cs)
      else
        case int_of_float_of brightness of
          Inl e \<Rightarrow> (if e = ValueError \<or> e = TypeError then (Inr False, cs) else (Inl e, cs))
        | Inr brightness_int \<Rightarrow>
            (case validate_brightness_value (PyInt brightness_int) of
               Inl e \<Rightarrow> (Inl e, cs)
             | Inr valid \<Rightarrow>
                 if \<not> valid then (Inr False, cs)
                 else
                   let method = dict_get display ''method'' (PyStr ''wmi'') in
                   case controllers_get reg method of
                     None \<Rightarrow> (Inr False, cs)
                   | Some controller \<Rightarrow>
                       (case ctl_set controller display brightness_int cs of
                          (Inl e, cs') \<Rightarrow> (Inr False, cs')
                        | (Inr result, cs') \<Rightarrow> (Inr result, cs'))))"

record support_info =
  si_get_brightness :: bool
  si_set_brightness :: bool
  si_method_available :: bool

text \<open>
  \<open>BrightnessController.test_brightness_support\<close>: an exception of either probe is
  caught and leaves the flag false.
\<close>

definition test_brightness_support ::
  "registry \<Rightarrow> display \<Rightarrow> calls \<Rightarrow> support_info \<times> calls" where
  "test_brightness_support reg display cs =
     (let method = dict_get display ''method'' (PyStr ''wmi'') in
      case controllers_get reg method of
        None \<Rightarrow>
          (\<lparr>si_get_brightness = False, si_set_brightness = False,
            si_method_available = False\<rparr>, cs)
      | Some controller \<Rightarrow>
          (case ctl_get controller display cs of
             (Inl e, cs1) \<Rightarrow>
               (\<lparr>si_get_brightness = False, si_set_brightness = False,
                 si_method_available = True\<rparr>, cs1)
           | (Inr None, cs1) \<Rightarrow>
               (\<lparr>si_get_brightness = False, si_set_brightness = False,
                 si_method_available = True\<rparr>, cs1)
           | (Inr (Some current), cs1) \<Rightarrow>
               (case ctl_set controller display current cs1 of
                  (Inl e, cs2) \<Rightarrow>
                    (\<lparr>si_get_brightness = True, si_set_brightness = False,
                      si_method_available = True\<rparr>, cs2)
                | (Inr result, cs2) \<Rightarrow>
                    (\<lparr>si_get_brightness = True, si_set_brightness = result,
                      si_method_available = True\<rparr>, cs2))))"

section \<open>Display detector\<close>

text \<open>
  Both WMI queries parse a table: the first two lines are skipped, then blank lines and
  lines that start with a dash. The line number within the kept lines names the display.
\<close>

definition data_lines :: "string \<Rightarrow> string list" where
  "data_lines out =
     filter (\<lambda>line. strip line \<noteq> [] \<and> \<not> startswith line ''-'')
       (drop 2 (split_on newline (strip out)))"

definition laptop_displays :: "string \<Rightarrow> string list \<Rightarrow> display_info list" where
  "laptop_displays flag lines =
     concat (map (\<lambda>(i, line).
               if strip line \<noteq> []
               then [\<lparr>di_name = ''Laptop Display '' @ str_of_nat (i + 1),
                      di_type = ''internal'', di_method = ''wmi'',
                      di_properties = [(''instance'', PyStr (strip line)), (flag, PyBool True)]\<rparr>]
               else [])
             (zip [0 ..< length lines] lines))"

definition detect_brightness_methods :: "shell \<Rightarrow> calls \<Rightarrow> display_info list \<times> calls" where
  "detect_brightness_methods sh cs =
     (let cmd = [''powershell'', ''-Command'',
                 ''Get-WmiObject -Namespace root/WMI -Class WmiMonitorBrightnessMethods | Select-Object InstanceName''];
          (result, cs') = subprocess_run sh cmd cs
      in (case result of
            Completed returncode out err \<Rightarrow>
              (if returncode = 0 \<and> strip out \<noteq> []
               then laptop_displays ''supports_brightness_methods'' (data_lines out)
               else [], cs')
          | TimeoutExpired \<Rightarrow> ([], cs')
          | RunFailed \<Rightarrow> ([], cs')))"

definition detect_current_brightness :: "shell \<Rightarrow> calls \<Rightarrow> display_info list \<times> calls" where
  "detect_current_brightness sh cs =
     (let cmd = [''powershell'', ''-Command'',
                 ''Get-WmiObject -Namespace root/WMI -Class WmiMonitorBrightness | Select-Object InstanceName, CurrentBrightness''];
          (result, cs') = subprocess_run sh cmd cs
      in (case result of
            Completed returncode out err \<Rightarrow>
              (if returncode = 0 \<and> strip out \<noteq> []
               then laptop_displays ''supports_current_brightness'' (data_lines out)
               else [], cs')
          | TimeoutExpired \<Rightarrow> ([], cs')
          | RunFailed \<Rightarrow> ([], cs')))"

definition wmi_detect_displays :: "shell \<Rightarrow> calls \<Rightarrow> display_info list \<times> calls" where
  "wmi_detect_displays sh cs =
     (let (brightness_displays, cs1) = detect_brightness_methods sh cs;
          (current_displays, cs2) = detect_current_brightness sh cs1
      in (foldl (\<lambda>displays current_display.
                   if \<not> list_ex (\<lambda>d. di_name d = di_name current_display) displays
                   then displays @ [current_display] else displays)
            brightness_displays current_displays, cs2))"

text \<open>
  The monitor enumeration calls the callback once per monitor, with a handle and an
  optional rectangle; \<open>mon_faulty\<close> marks a callback whose body raises, which the callback
  itself catches. The enumeration as a whole may raise as well, after the callbacks it made.
\<close>

record monitor =
  mon_handle :: int
  mon_rect :: "(int \<times> int \<times> int \<times> int) option"
  mon_faulty :: bool

record enumeration =
  enum_monitors :: "monitor list"
  enum_raised :: bool

definition ddc_detect_displays :: "enumeration \<Rightarrow> display_info list" where
  "ddc_detect_displays en =
     foldl (\<lambda>displays m.
              if mon_faulty m then displays
              else displays @
                [\<lparr>di_name = ''External Monitor '' @ str_of_nat (length displays + 1),
                  di_type = ''external'', di_method = ''ddc'',
                  di_properties =
                    [(''handle'', PyInt (mon_handle m)),
                     (''rect_info'',
                      (case mon_rect m of
                         None \<Rightarrow> PyNone
                       | Some (a, b, c, d) \<Rightarrow> PyRect a b c d))]\<rparr>])
       [] (enum_monitors en)"

definition fallback_display :: display_info where
  "fallback_display =
     \<lparr>di_name = ''Primary Display'', di_type = ''unknown'', di_method = ''wmi'',
      di_properties = [(''is_fallback'', PyBool True)]\<rparr>"

text \<open>\<open>DisplayDetector.detect_displays\<close>; the result is the new \<open>self.displays\<close>.\<close>

definition detect_displays :: "shell \<Rightarrow> enumeration \<Rightarrow> calls \<Rightarrow> display_info list \<times> calls" where
  "detect_displays sh en cs =
     (let (wmi_displays, cs') = wmi_detect_displays sh cs;
          ddc_displays = ddc_detect_displays en;
          displays = [] @ wmi_displays @ ddc_displays
      in (if displays = [] then displays @ [fallback_display] else displays, cs'))"

definition get_displays :: "display_info list \<Rightarrow> display list" where
  "get_displays displays = map to_dict displays"

definition get_display_by_index :: "display_info list \<Rightarrow> int \<Rightarrow> display option" where
  "get_display_by_index displays index =
     (if 0 \<le> index \<and> index < int (length displays)
      then Some (to_dict (displays ! nat index))
      else None)"

definition refresh_displays :: "shell \<Rightarrow> enumeration \<Rightarrow> calls \<Rightarrow> display_info list \<times> calls" where
  "refresh_displays sh en cs = detect_displays sh en cs"

section \<open>The single-file version\<close>

text \<open>
  \<open>FastDisplayDetector.detect_displays\<close> builds dictionaries directly; its callback has
  no handler of its own and reads the handle only.
\<close>

definition fast_wmi_detect :: "shell \<Rightarrow> calls \<Rightarrow> display list \<times> calls" where
  "fast_wmi_detect sh cs =
     (let cmd = [''powershell'', ''-Command'',
                 ''Get-WmiObject -Namespace root/WMI -Class WmiMonitorBrightnessMethods | Measure-Object | Select-Object Count''];
          (result, cs') = subprocess_run sh cmd cs
      in (case result of
            Completed returncode out err \<Rightarrow>
              (if returncode = 0 \<and> sublist ''Count'' out
               then [[(''name'', PyStr ''Laptop Display''), (''type'', PyStr ''internal''),
                      (''method'', PyStr ''wmi'')]]
               else [], cs')
          | TimeoutExpired \<Rightarrow> ([], cs')
          | RunFailed \<Rightarrow> ([], cs')))"

definition fast_enum_detect :: "display list \<Rightarrow> enumeration \<Rightarrow> display list" where
  "fast_enum_detect displays en =
     foldl (\<lambda>displays m.
              displays @
                [[(''name'', PyStr (''External Monitor '' @ str_of_nat (length displays))),
                  (''type'', PyStr ''external''), (''method'', PyStr ''ddc''),
                  (''handle'', PyInt (mon_handle m))]])
       displays (enum_monitors en)"

definition fast_fallback_display :: display where
  "fast_fallback_display =
     [(''name'', PyStr ''Primary Display''), (''type'', PyStr ''unknown''),
      (''method'', PyStr ''wmi'')]"

definition fast_detect_displays :: "shell \<Rightarrow> enumeration \<Rightarrow> calls \<Rightarrow> display list \<times> calls" where
  "fast_detect_displays sh en cs =
     (let (displays, cs') = fast_wmi_detect sh cs;
          displays = fast_enum_detect displays en
      in (if displays = [] then displays @ [fast_fallback_display] else displays, cs'))"

text \<open>
  \<open>FastBrightnessController\<close>: there is no registry; every display whose method is
  not \<open>wmi\<close> is answered with the default 50 and a simulated success.
\<close>

fun scan_digit_lines :: "string list \<Rightarrow> pyerror + int option" where
  "scan_digit_lines [] = Inr None"
| "scan_digit_lines (line # lines) =
     (if isdigit (strip line)
      then (case py_int (strip line) of
              Inl e \<Rightarrow> Inl e
            | Inr brightness \<Rightarrow> Inr (Some brightness))
      else scan_digit_lines lines)"

definition fast_get_brightness :: "shell \<Rightarrow> display \<Rightarrow> calls \<Rightarrow> int \<times> calls" where
  "fast_get_brightness sh display cs =
     (if display = [] \<or> dict_get display ''method'' PyNone \<noteq> PyStr ''wmi'' then (50, cs)
      else
        let cmd = [''powershell'', ''-Command'',
                   ''Get-WmiObject -Namespace root/WMI -Class WmiMonitorBrightness | ForEach-Object {$_.CurrentBrightness}''];
            (result, cs') = subprocess_run sh cmd cs
        in (case result of
              Completed returncode out err \<Rightarrow>
                (if returncode = 0 \<and> strip out \<noteq> []
                 then (case scan_digit_lines (split_on newline (strip out)) of
                         Inr (Some brightness) \<Rightarrow> (brightness, cs')
                       | Inr None \<Rightarrow> (50, cs')
                       | Inl e \<Rightarrow> (50, cs'))
                 else (50, cs'))
            | TimeoutExpired \<Rightarrow> (50, cs')
            | RunFailed \<Rightarrow> (50, cs')))"

section \<open>The specification's reading of the query output\<close>

text \<open>
  In the specification's words the scan looks for a bare integer line or a
  \<open>Key : Value\<close> line with an integer value, and returns the first match. An integer is
  written as decimal digits with an optional sign; the key is what stands before the first
  colon and the value is all that follows it; blanks around the line and around the value
  do not count.
\<close>

definition spec_integer :: "string \<Rightarrow> int option" where
  "spec_integer s =
     (case s of
        [] \<Rightarrow> None
      | c # t \<Rightarrow>
          if c = CHR ''-'' \<and> all_decimal t then Some (- int_of_digits t)
          else if c = CHR ''+'' \<and> all_decimal t then Some (int_of_digits t)
          else if all_decimal s then Some (int_of_digits s)
          else None)"

definition spec_line_value :: "string \<Rightarrow> int option" where
  "spec_line_value line =
     (let s = strip line in
      case spec_integer s of
        Some v \<Rightarrow> Some v
      | None \<Rightarrow>
          if CHR '':'' \<in> set s
          then spec_integer (strip (tl (dropWhile (\<lambda>c. c \<noteq> CHR '':'') s)))
          else None)"

definition spec_first_match :: "string list \<Rightarrow> int option" where
  "spec_first_match lines =
     (case find (\<lambda>l. spec_line_value l \<noteq> None) lines of
        None \<Rightarrow> None
      | Some l \<Rightarrow> spec_line_value l)"

section \<open>What one output line offers to the scan\<close>

text \<open>
  The digit string a line offers: the stripped line when it is a digit string, else, on a
  line with a colon, the stripped field between the first and the second colon when that
  is a digit string.
\<close>

definition line_digits :: "string \<Rightarrow> string option" where
  "line_digits line =
     (let s = strip line in
      if isdigit s then Some s
      else
        (case split_on (CHR '':'') s of
           key # val # rest \<Rightarrow> if isdigit (strip val) then Some (strip val) else None
         | _ \<Rightarrow> None))"

text \<open>
  The single-file version's loop takes a stripped line that is a digit string, and nothing
  else.
\<close>

definition bare_digits :: "string \<Rightarrow> string option" where
  "bare_digits line = (if isdigit (strip line) then Some (strip line) else None)"

text \<open>
  One step of either loop: a line that offers nothing passes on to the rest of the lines;
  a line that offers a digit string ends the loop with the result of \<open>int\<close>.
\<close>

definition offer_result :: "string option \<Rightarrow> (pyerror + int option) \<Rightarrow> pyerror + int option" where
  "offer_result d rest =
     (case d of
        None \<Rightarrow> rest
      | Some s \<Rightarrow> (case py_int s of Inl e \<Rightarrow> Inl e | Inr b \<Rightarrow> Inr (Some b)))"

section \<open>Rounding to binary64: bounds and exactness\<close>

lemma rhe_int: "round_half_even (of_int n) = n"
  by (simp add: round_half_even_def)

lemma rhe_bounds: "\<bar>of_int (round_half_even x) - x\<bar> \<le> 1 / 2"
proof -
  have "of_int \<lfloor>x\<rfloor> \<le> x" "x < of_int \<lfloor>x\<rfloor> + 1" by linarith+
  then show ?thesis
    unfolding round_half_even_def Let_def by (auto simp: abs_le_iff)
qed

lemma bitlen_powi:
  assumes "0 < (p::int)"
  shows "(2::rat) powi (bitlen p - 1) \<le> of_int p" "of_int p < (2::rat) powi (bitlen p)"
proof -
  from bitlen_bounds[OF assms] have b: "2 ^ nat (bitlen p - 1) \<le> p" "p < 2 ^ nat (bitlen p)"
    by auto
  have b1: "1 \<le> bitlen p" using assms bitlen_eq_zero_iff[of p] bitlen_nonneg[of p] by linarith
  have "(2::rat) powi (bitlen p - 1) = 2 ^ nat (bitlen p - 1)"
    using b1 by (simp add: power_int_def)
  also have "\<dots> = of_int (2 ^ nat (bitlen p - 1))" by simp
  also have "\<dots> \<le> of_int p" using b(1) by (simp only: of_int_le_iff)
  finally show "(2::rat) powi (bitlen p - 1) \<le> of_int p" .
  have "of_int p < (of_int (2 ^ nat (bitlen p)) :: rat)" using b(2) by (simp only: of_int_less_iff)
  also have "\<dots> = 2 powi (bitlen p)" using b1 by (simp add: power_int_def)
  finally show "of_int p < (2::rat) powi (bitlen p)" .
qed

lemma ilog2_bounds:
  assumes "0 < a"
  shows "2 powi (ilog2 a) \<le> a \<and> a < 2 powi (ilog2 a + 1)"
proof -
  obtain p d where pd: "quotient_of a = (p, d)" by (cases "quotient_of a")
  have d: "0 < d" using pd by (rule quotient_of_denom_pos)
  have a: "a = of_int p / of_int d" using pd by (rule quotient_of_div)
  have p: "0 < p" using assms d a by (simp add: zero_less_divide_iff)
  define k where "k = bitlen p - bitlen d"
  have il: "ilog2 a = (if 2 powi k \<le> a then k else k - 1)"
    by (simp add: ilog2_def pd k_def)
  note P = bitlen_powi[OF p] and D = bitlen_powi[OF d]
  have dpos: "(0::rat) < of_int d" using d by simp
  have up: "a < 2 powi (k + 1)"
  proof -
    have "of_int p < (2::rat) powi (k + 1) * 2 powi (bitlen d - 1)"
      using P(2) by (simp add: k_def flip: power_int_add)
    also have "\<dots> \<le> 2 powi (k + 1) * of_int d"
      using D(1) by (simp add: mult_left_mono)
    finally show ?thesis using dpos by (simp add: a pos_divide_less_eq)
  qed
  have lo: "2 powi (k - 1) \<le> a"
  proof -
    have "(2::rat) powi (k - 1) * of_int d \<le> 2 powi (k - 1) * 2 powi (bitlen d)"
      using D(2) by (simp add: mult_left_mono)
    also have "\<dots> = 2 powi (bitlen p - 1)" by (simp add: k_def flip: power_int_add)
    also have "\<dots> \<le> of_int p" by (rule P(1))
    finally show ?thesis using dpos by (simp add: a pos_le_divide_eq)
  qed
  show ?thesis using up lo by (auto simp: il not_le)
qed

lemma powi2_less_iff: "(2::rat) powi m < 2 powi n \<longleftrightarrow> m < n"
proof
  assume "(2::rat) powi m < 2 powi n"
  show "m < n"
  proof (rule ccontr)
    assume "\<not> m < n"
    then have "(2::rat) powi n \<le> 2 powi m" by (intro power_int_increasing) auto
    with \<open>(2::rat) powi m < 2 powi n\<close> show False by simp
  qed
next
  assume "m < n"
  then show "(2::rat) powi m < 2 powi n" by (intro power_int_strict_increasing) auto
qed

lemma ilog2_unique:
  assumes "2 powi k \<le> a" "a < 2 powi (k + 1)"
  shows "ilog2 a = k"
proof -
  have a: "0 < a" using assms(1) by (rule less_le_trans[rotated]) simp
  from ilog2_bounds[OF a] have b: "2 powi (ilog2 a) \<le> a" "a < 2 powi (ilog2 a + 1)" by auto
  have "(2::rat) powi k < 2 powi (ilog2 a + 1)" using assms(1) b(2) by linarith
  then have 1: "k < ilog2 a + 1" by (simp add: powi2_less_iff)
  have "(2::rat) powi (ilog2 a) < 2 powi (k + 1)" using assms(2) b(1) by linarith
  then have 2: "ilog2 a < k + 1" by (simp add: powi2_less_iff)
  show ?thesis using 1 2 by linarith
qed


lemma round_double_pos:
  assumes "0 < a"
  shows "round_double a =
     (let e = max (ilog2 a) (- 1022); ulp = 2 powi (e - 52);
          r = of_int (round_half_even (a / ulp)) * ulp
      in if 2 powi 1024 \<le> r then PosInf else Finite r)"
  using assms by (simp add: round_double_def Let_def)

lemma round_double_neg:
  assumes "0 < a"
  shows "round_double (- a) =
     (let e = max (ilog2 a) (- 1022); ulp = 2 powi (e - 52);
          r = of_int (round_half_even (a / ulp)) * ulp
      in if 2 powi 1024 \<le> r then NegInf else Finite (- r))"
  using assms by (simp add: round_double_def Let_def)

lemma ilog2_nonneg:
  assumes "1 \<le> a"
  shows "0 \<le> ilog2 a"
proof -
  have a: "0 < a" using assms by simp
  from ilog2_bounds[OF a] have "a < 2 powi (ilog2 a + 1)" by simp
  with assms have "(2::rat) powi 0 < 2 powi (ilog2 a + 1)" by simp
  then show ?thesis by (simp only: powi2_less_iff)
qed

lemma round_nearest_lower:
  assumes "1 \<le> a"
  defines "r \<equiv> of_int (round_half_even (a / 2 powi (ilog2 a - 52))) * 2 powi (ilog2 a - 52)"
  shows "a * (1 - 1 / 2 ^ 53) \<le> r"
proof -
  define ulp :: rat where "ulp = 2 powi (ilog2 a - 52)"
  have a: "0 < a" using assms by simp
  have ulp_pos: "0 < ulp" by (simp add: ulp_def)
  have ulp_le: "ulp \<le> a / 2 ^ 52"
  proof -
    have "ulp = 2 powi (ilog2 a) / 2 ^ 52"
      by (simp add: ulp_def power_int_diff)
    also have "\<dots> \<le> a / 2 ^ 52"
      using ilog2_bounds[OF a] by (simp add: divide_right_mono)
    finally show ?thesis .
  qed
  have "\<bar>of_int (round_half_even (a / ulp)) - a / ulp\<bar> \<le> 1 / 2" by (rule rhe_bounds)
  then have "a / ulp - 1 / 2 \<le> of_int (round_half_even (a / ulp))" by linarith
  then have "(a / ulp - 1 / 2) * ulp \<le> of_int (round_half_even (a / ulp)) * ulp"
    using ulp_pos by (simp only: mult_le_cancel_right_pos)
  then have "a - ulp / 2 \<le> r"
    using ulp_pos by (simp add: r_def ulp_def algebra_simps)
  moreover have "a * (1 - 1 / 2 ^ 53) \<le> a - ulp / 2"
    using ulp_le by (simp add: algebra_simps)
  ultimately show ?thesis by linarith
qed

lemma round_double_ge1:
  assumes "1 \<le> a"
  shows "round_double a = PosInf \<or> (\<exists>r. round_double a = Finite r \<and> a * (1 - 1 / 2 ^ 53) \<le> r)"
proof -
  have a: "0 < a" using assms by simp
  have e: "max (ilog2 a) (- 1022) = ilog2 a" using ilog2_nonneg[OF assms] by simp
  show ?thesis
    using round_nearest_lower[OF assms]
    by (simp add: round_double_pos[OF a] e Let_def)
qed

lemma round_double_le_m1:
  assumes "1 \<le> a"
  shows "round_double (- a) = NegInf \<or> (\<exists>r. round_double (- a) = Finite r \<and> r \<le> - (a * (1 - 1 / 2 ^ 53)))"
proof -
  have a: "0 < a" using assms by simp
  have e: "max (ilog2 a) (- 1022) = ilog2 a" using ilog2_nonneg[OF assms] by simp
  show ?thesis
    using round_nearest_lower[OF assms]
    by (simp add: round_double_neg[OF a] e Let_def)
qed

lemma round_core_exact:
  assumes "0 < n" "n < 2 ^ 53"
  defines "a \<equiv> (of_int n :: rat)"
  shows "max (ilog2 a) (- 1022) = ilog2 a"
    and "of_int (round_half_even (a / 2 powi (ilog2 a - 52))) * 2 powi (ilog2 a - 52) = a"
    and "a < 2 powi 1024"
proof -
  have a1: "1 \<le> a" using assms by (simp add: a_def)
  have a: "0 < a" using a1 by simp
  define e where "e = ilog2 a"
  have e0: "0 \<le> e" unfolding e_def by (rule ilog2_nonneg[OF a1])
  have "(2::rat) powi e \<le> a" using ilog2_bounds[OF a] by (simp add: e_def)
  also have a53: "a < 2 powi 53"
  proof -
    have "(of_int n :: rat) < of_int (2 ^ 53)" using assms(2) by (simp only: of_int_less_iff)
    then show ?thesis by (simp add: a_def power_int_def)
  qed
  finally have e53: "e < 53" by (simp only: powi2_less_iff)
  define m where "m = n * 2 ^ nat (52 - e)"
  have ulp: "(2::rat) powi (e - 52) = 1 / 2 ^ nat (52 - e)"
    using e53 by (simp add: power_int_def field_simps)
  have q: "a / 2 powi (e - 52) = of_int m"
    by (simp add: ulp m_def a_def)
  show "max (ilog2 a) (- 1022) = ilog2 a" using e0 by (simp add: e_def)
  show "of_int (round_half_even (a / 2 powi (ilog2 a - 52))) * 2 powi (ilog2 a - 52) = a"
    unfolding e_def[symmetric] by (simp only: q rhe_int) (simp add: ulp m_def a_def)
  show "a < 2 powi 1024" using a53
    by (rule less_trans) (simp add: powi2_less_iff)
qed

lemma round_double_exact_pos:
  assumes "0 < n" "n < 2 ^ 53"
  shows "round_double (of_int n) = Finite (of_int n)"
proof -
  have a: "0 < (of_int n :: rat)" using assms by simp
  show ?thesis
    using round_core_exact[OF assms]
    by (simp add: round_double_pos[OF a] Let_def)
qed

lemma round_double_exact_neg:
  assumes "0 < n" "n < 2 ^ 53"
  shows "round_double (- of_int n) = Finite (- of_int n)"
proof -
  have a: "0 < (of_int n :: rat)" using assms by simp
  show ?thesis
    using round_core_exact[OF assms]
    by (simp add: round_double_neg[OF a] Let_def)
qed

lemma round_double_exact:
  assumes "- (2 ^ 53) < n" "n < 2 ^ 53"
  shows "round_double (of_int n) = Finite (of_int n)"
proof -
  consider "n = 0" | "0 < n" | "n < 0" by linarith
  then show ?thesis
  proof cases
    case 1
    then show ?thesis by (simp add: round_double_def)
  next
    case 2
    then show ?thesis using assms by (simp add: round_double_exact_pos)
  next
    case 3
    then have "0 < - n" "- n < 2 ^ 53" using assms by simp_all
    from round_double_exact_neg[OF this] show ?thesis by simp
  qed
qed

lemma rhe_below_half:
  assumes "of_int m \<le> x" "x < of_int m + 1 / 2"
  shows "round_half_even x = m"
proof -
  have "\<lfloor>x\<rfloor> = m" using assms by (intro floor_unique) auto
  then show ?thesis using assms by (simp add: round_half_even_def Let_def)
qed

lemma round_double_eval:
  fixes a :: rat and k :: nat
  assumes "2 ^ k \<le> a" "a < 2 ^ Suc k" "k \<le> 52"
    and "of_int m \<le> a * 2 ^ (52 - k)" "a * 2 ^ (52 - k) < of_int m + 1 / 2"
  shows "round_double a = Finite (of_int m / 2 ^ (52 - k))"
proof -
  have a: "0 < a" using assms(1) by (rule less_le_trans[rotated]) simp
  have "2 powi (int k) \<le> a" "a < 2 powi (int k + 1)"
    using assms(1,2) by (simp_all add: power_int_def nat_add_distrib)
  then have k: "ilog2 a = int k" by (rule ilog2_unique)
  have ulp: "(2::rat) powi (int k - 52) = 1 / 2 ^ (52 - k)"
    using assms(3) by (simp add: power_int_def power_divide nat_diff_distrib field_simps)
  have r: "round_half_even (a * 2 ^ (52 - k)) = m"
    using assms(4,5) by (rule rhe_below_half)
  have "of_int m / 2 ^ (52 - k) \<le> a"
    using assms(4) by (simp add: field_simps)
  also have "a < 2 ^ 53"
  proof -
    have "Suc k \<le> 53" using assms(3) by simp
    then have "(2::rat) ^ Suc k \<le> 2 ^ 53" by (intro power_increasing) simp_all
    with assms(2) show ?thesis by (rule less_le_trans)
  qed
  finally have "of_int m / 2 ^ (52 - k) < (2::rat) powi 1024"
    by (rule less_trans) (simp add: power_int_def)
  then have "\<not> (2::rat) powi 1024 \<le> of_int m / 2 ^ (52 - k)" by simp
  then show ?thesis
    by (simp add: round_double_pos[OF a] k r ulp Let_def del: power_int_numeral)
qed


lemma round_double_boundary:
  "round_double (10000000000000000001 / 100000000000000000) = Finite 100"
proof -
  have "round_double (10000000000000000001 / 100000000000000000) = Finite (of_int 7036874417766400 / 2 ^ (52 - 6))"
    by (rule round_double_eval) simp_all
  also have "(of_int 7036874417766400 / 2 ^ (52 - 6) :: rat) = 100" by simp
  finally show ?thesis .
qed

section \<open>Validation of integers\<close>

lemma round_double_int_sign:
  "(0 \<le> n \<and> n \<le> 100 \<longrightarrow> round_double (of_int n) = Finite (of_int n)) \<and>
   (100 < n \<longrightarrow> round_double (of_int n) = PosInf \<or> (\<exists>r. round_double (of_int n) = Finite r \<and> 100 < r)) \<and>
   (n < 0 \<longrightarrow> round_double (of_int n) = NegInf \<or> (\<exists>r. round_double (of_int n) = Finite r \<and> r < 0))"
proof (intro conjI impI)
  assume "0 \<le> n \<and> n \<le> 100"
  then show "round_double (of_int n) = Finite (of_int n)"
    by (simp add: round_double_exact)
next
  assume n: "100 < n"
  then have "101 \<le> n" by linarith
  then have "(of_int 101 :: rat) \<le> of_int n" by (simp only: of_int_le_iff)
  then have "101 \<le> (of_int n :: rat)" by simp
  then have a1: "1 \<le> (of_int n :: rat)" and lo: "100 < (of_int n :: rat) * (1 - 1 / 2 ^ 53)" by simp_all
  from round_double_ge1[OF a1] lo
  show "round_double (of_int n) = PosInf \<or> (\<exists>r. round_double (of_int n) = Finite r \<and> 100 < r)"
    by (metis less_le_trans)
next
  assume n: "n < 0"
  define a :: rat where "a = of_int (- n)"
  have a1: "1 \<le> a" using n by (simp add: a_def) 
  then have lo: "- (a * (1 - 1 / 2 ^ 53)) < 0" by simp
  have an: "of_int n = - a" by (simp add: a_def)
  from round_double_le_m1[OF a1] lo
  show "round_double (of_int n) = NegInf \<or> (\<exists>r. round_double (of_int n) = Finite r \<and> r < 0)"
    unfolding an by (metis le_less_trans)
qed


lemma py_float_int_in_range:
  assumes "0 \<le> n" "n \<le> 100"
  shows "py_float (PyInt n) = Inr (Finite (of_int n))"
  using assms round_double_int_sign[of n] by simp

lemma py_float_int_above:
  assumes "100 < n"
  shows "py_float (PyInt n) = Inl OverflowError \<or> (\<exists>r. py_float (PyInt n) = Inr (Finite r) \<and> 100 < r)"
proof -
  from assms round_double_int_sign[of n]
  consider "round_double (of_int n) = PosInf" | r where "round_double (of_int n) = Finite r" "100 < r"
    by blast
  then show ?thesis by cases simp_all
qed

lemma py_float_int_below:
  assumes "n < 0"
  shows "py_float (PyInt n) = Inl OverflowError \<or> (\<exists>r. py_float (PyInt n) = Inr (Finite r) \<and> r < 0)"
proof -
  from assms round_double_int_sign[of n]
  consider "round_double (of_int n) = NegInf" | r where "round_double (of_int n) = Finite r" "r < 0"
    by blast
  then show ?thesis by cases simp_all
qed

lemma validate_Finite:
  "py_float v = Inr (Finite r) \<Longrightarrow> validate_brightness_value v = Inr (0 \<le> r \<and> r \<le> 100)"
  by (simp add: validate_brightness_value_def safe_brightness_range_def)

lemma validate_Overflow:
  "py_float v = Inl OverflowError \<Longrightarrow> validate_brightness_value v = Inl OverflowError"
  by (simp add: validate_brightness_value_def)

lemma validate_int_cases:
  "validate_brightness_value (PyInt n) = Inr (0 \<le> n \<and> n \<le> 100) \<or>
   validate_brightness_value (PyInt n) = Inl OverflowError"
proof -
  consider "0 \<le> n \<and> n \<le> 100" | "100 < n" | "n < 0" by linarith
  then show ?thesis
  proof cases
    case 1
    then show ?thesis
      using validate_Finite[OF py_float_int_in_range, of n] by simp
  next
    case 2
    from py_float_int_above[OF 2] show ?thesis
    proof (elim disjE exE conjE)
      assume "py_float (PyInt n) = Inl OverflowError"
      then show ?thesis by (simp add: validate_Overflow)
    next
      fix r assume "py_float (PyInt n) = Inr (Finite r)" "100 < r"
      then show ?thesis using 2 by (simp add: validate_Finite)
    qed
  next
    case 3
    from py_float_int_below[OF 3] show ?thesis
    proof (elim disjE exE conjE)
      assume "py_float (PyInt n) = Inl OverflowError"
      then show ?thesis by (simp add: validate_Overflow)
    next
      fix r assume "py_float (PyInt n) = Inr (Finite r)" "r < 0"
      then show ?thesis using 3 by (simp add: validate_Finite)
    qed
  qed
qed

lemma validate_int_in_range:
  "0 \<le> n \<Longrightarrow> n \<le> 100 \<Longrightarrow> validate_brightness_value (PyInt n) = Inr True"
  using validate_Finite[OF py_float_int_in_range, of n] by simp

lemma validate_int_True_iff:
  "validate_brightness_value (PyInt n) = Inr True \<longleftrightarrow> 0 \<le> n \<and> n \<le> 100"
  using validate_int_cases[of n] validate_int_in_range[of n] by auto

lemma validate_int_small:
  assumes "- (2 ^ 53) < n" "n < 2 ^ 53"
  shows "validate_brightness_value (PyInt n) = Inr (0 \<le> n \<and> n \<le> 100)"
proof -
  have "py_float (PyInt n) = Inr (Finite (of_int n))"
    using round_double_exact[OF assms] by simp
  from validate_Finite[OF this] show ?thesis by simp
qed


lemma py_float_int_exact:
  assumes "- (2 ^ 53) < n" "n < 2 ^ 53"
  shows "py_float (PyInt n) = Inr (Finite (of_int n))"
  using round_double_exact[OF assms] by simp

lemma int_of_float_of_int:
  assumes "- (2 ^ 53) < n" "n < 2 ^ 53"
  shows "int_of_float_of (PyInt n) = Inr n"
  using py_float_int_exact[OF assms] by (simp add: int_of_float_of_def)

section \<open>The security manager: sanitizing and the allow-lists\<close>

lemma sanitize_snoc:
  "foldl (\<lambda>safe_cmd part.
            if \<not> safe_powershell_pattern part
            then safe_cmd @ [filter safe_char part]
            else safe_cmd @ [part]) acc cmd
   = acc @ map (filter safe_char) cmd"
proof (induction cmd arbitrary: acc)
  case Nil
  show ?case by simp
next
  case (Cons part cmd)
  have "safe_powershell_pattern part \<Longrightarrow> filter safe_char part = part"
    by (simp add: safe_powershell_pattern_def list_all_iff)
  with Cons show ?case by auto
qed

lemma sanitize_eq_map:
  "sanitize_powershell_command cmd = map (filter safe_char) cmd"
  by (simp add: sanitize_powershell_command_def sanitize_snoc)

text \<open>
  Claim C9. For every list of command tokens, \<open>sanitize_powershell_command\<close> returns a
  list of the same length; every token of the result consists of characters of the safe
  class only; a token that matches the safe pattern is returned unchanged; and sanitizing
  the result again changes nothing.
\<close>

theorem sanitize_powershell_command_allow_list:
  "length (sanitize_powershell_command cmd) = length cmd \<and>
   (\<forall>part \<in> set (sanitize_powershell_command cmd). \<forall>c \<in> set part. safe_char c) \<and>
   (\<forall>i < length cmd. safe_powershell_pattern (cmd ! i) \<longrightarrow>
      sanitize_powershell_command cmd ! i = cmd ! i) \<and>
   sanitize_powershell_command (sanitize_powershell_command cmd) =
     sanitize_powershell_command cmd"
  by (auto simp: sanitize_eq_map safe_powershell_pattern_def list_all_iff filter_id_conv)

lemma safe_char_simps:
  "safe_char (CHR ''a'')" "safe_char (CHR ''b'')" "\<not> safe_char (CHR '';'')" "\<not> safe_char (CHR ''|'')"
  by (simp_all add: safe_char_def py_isalpha_char_def py_isdigit_char_def py_isspace_def)

text \<open>The statement at the tokens \<open>ab\<close> (safe) and \<open>a;b|\<close> (two characters removed).\<close>

theorem sanitize_powershell_command_allow_list_witness:
  "0 < length [''ab'', ''a;b|''] \<and> safe_powershell_pattern ([''ab'', ''a;b|''] ! 0) \<and>
   sanitize_powershell_command [''ab'', ''a;b|''] ! 0 = ''ab'' \<and>
   ''ab'' \<in> set (sanitize_powershell_command [''ab'', ''a;b|'']) \<and>
   safe_char (CHR ''a'') \<and> safe_char (CHR ''b'') \<and>
   length (sanitize_powershell_command [''ab'', ''a;b|'']) = 2 \<and>
   sanitize_powershell_command (sanitize_powershell_command [''ab'', ''a;b|'']) =
     sanitize_powershell_command [''ab'', ''a;b|'']"
  using sanitize_powershell_command_allow_list [of "[''ab'', ''a;b|'']"]
  by (simp add: sanitize_eq_map safe_powershell_pattern_def safe_char_simps)

lemma create_safe_wmi_command_empty_iff:
  "create_safe_wmi_command namespace class_name method parameters = [] \<longleftrightarrow>
     \<not> validate_wmi_namespace namespace \<or> \<not> validate_wmi_class class_name"
  by (simp add: create_safe_wmi_command_def sanitize_eq_map Let_def)

text \<open>
  Claim C6. For every namespace and class name, \<open>create_safe_wmi_command\<close> returns the
  empty list whenever the namespace is not one of the three allowed namespaces or the
  class is not one of the four allowed classes, whatever the method and parameters are;
  and it returns the empty list in no other case.
\<close>

theorem create_safe_wmi_command_rejects:
  "(namespace \<notin> set [''root/WMI'', ''root/CIMV2'', ''root/StandardCimv2''] \<or>
    class_name \<notin> set [''WmiMonitorBrightness'', ''WmiMonitorBrightnessMethods'',
                        ''Win32_DesktopMonitor'', ''Win32_VideoController''])
   \<longleftrightarrow> create_safe_wmi_command namespace class_name method parameters = []"
  by (simp add: create_safe_wmi_command_empty_iff validate_wmi_namespace_def
      validate_wmi_class_def safe_namespaces_def safe_classes_def)

text \<open>The namespace \<open>root/Evil\<close> is rejected.\<close>

theorem create_safe_wmi_command_rejects_witness:
  "''root/Evil'' \<notin> set [''root/WMI'', ''root/CIMV2'', ''root/StandardCimv2''] \<and>
   create_safe_wmi_command ''root/Evil'' ''WmiMonitorBrightness'' None None = []"
  using create_safe_wmi_command_rejects [of "''root/Evil''" "''WmiMonitorBrightness''" None None]
  by simp

section \<open>The validation of a brightness value\<close>

lemma parse_boundary:
  "parse_decimal ''100.00000000000000001'' = Some (10000000000000000001 / 100000000000000000)"
  by (simp add: parse_decimal_def py_isdigit_char_def decimal_value_def int_of_digits_def
      digit_val_def power_int_def power_divide Let_def)

lemma float_boundary:
  "py_float (PyStr ''100.00000000000000001'') = Inr (Finite 100)"
  by (simp add: float_of_string_def c_strip_def c_isspace_def py_isdigit_char_def
      lower_char_def parse_boundary round_double_boundary Let_def)

text \<open>
  Claim C1, as stated, fails: the string \<open>100.00000000000000001\<close> denotes a real number
  above 100, yet \<open>float\<close> rounds it to the binary64 value 100 and the validation accepts it.
\<close>

theorem validate_brightness_value_rounds:
  "validate_brightness_value (PyStr ''100.00000000000000001'') = Inr True \<and>
   parse_decimal ''100.00000000000000001'' = Some (10000000000000000001 / 100000000000000000) \<and>
   (100::rat) < 10000000000000000001 / 100000000000000000"
  by (simp add: validate_Finite[OF float_boundary] parse_boundary)

lemma float_of_string_abc: "float_of_string ''abc'' = Inl ValueError"
  by (simp add: float_of_string_def c_strip_def c_isspace_def py_isdigit_char_def
      lower_char_def parse_decimal_def Let_def)

lemma float_of_string_50: "float_of_string ''50'' = Inr (Finite 50)"
proof -
  have "parse_decimal ''50'' = Some (of_int 50)"
    by (simp add: parse_decimal_def py_isdigit_char_def decimal_value_def int_of_digits_def
        digit_val_def Let_def)
  moreover have "round_double (of_int 50) = Finite (of_int 50)"
    by (rule round_double_exact) simp_all
  ultimately show ?thesis
    by (simp add: float_of_string_def c_strip_def c_isspace_def py_isdigit_char_def
        lower_char_def Let_def)
qed

text \<open>
  Claim C1, amended. For every input value, \<open>validate_brightness_value\<close> returns true if
  and only if \<open>float\<close> converts the value to a finite binary64 number that lies in
  0..100; for every input on which \<open>float\<close> raises a value or type error it returns
  false and no exception leaves the call. For an integer, and for a float, this is the
  case exactly when the number itself lies in 0..100. The single-file version returns true
  on the same inputs.
\<close>

theorem validate_brightness_value_float_range:
  "(validate_brightness_value v = Inr True \<longleftrightarrow>
      (\<exists>x. py_float v = Inr (Finite x) \<and> 0 \<le> x \<and> x \<le> 100)) \<and>
   (py_float v = Inl ValueError \<or> py_float v = Inl TypeError \<longrightarrow>
      validate_brightness_value v = Inr False) \<and>
   (validate_brightness_value (PyInt n) = Inr True \<longleftrightarrow> 0 \<le> n \<and> n \<le> 100) \<and>
   validate_brightness_value (PyFloat (Finite q)) = Inr (0 \<le> q \<and> q \<le> 100) \<and>
   (fast_validate_brightness_value v \<longleftrightarrow> validate_brightness_value v = Inr True)"
proof -
  have range: "float_le (Finite 0) f \<and> float_le f (Finite 100) \<longleftrightarrow>
                 (\<exists>x. f = Finite x \<and> 0 \<le> x \<and> x \<le> 100)" for f
    by (cases f) simp_all
  have c1: "validate_brightness_value v = Inr True \<longleftrightarrow>
      (\<exists>x. py_float v = Inr (Finite x) \<and> 0 \<le> x \<and> x \<le> 100)"
  proof (cases "py_float v")
    case (Inl e)
    then show ?thesis by (simp add: validate_brightness_value_def)
  next
    case (Inr f)
    then show ?thesis using range[of f]
      by (simp add: validate_brightness_value_def safe_brightness_range_def)
  qed
  have c2: "py_float v = Inl ValueError \<or> py_float v = Inl TypeError \<longrightarrow>
      validate_brightness_value v = Inr False"
    by (auto simp: validate_brightness_value_def)
  have c5: "fast_validate_brightness_value v \<longleftrightarrow> validate_brightness_value v = Inr True"
    by (cases "py_float v")
       (simp_all add: fast_validate_brightness_value_def validate_brightness_value_def
          safe_brightness_range_def)
  show ?thesis
    using c1 c2 c5 validate_int_True_iff[of n]
    by (simp add: validate_brightness_value_def[of "PyFloat (Finite q)"] safe_brightness_range_def)
qed

text \<open>The inputs \<open>50\<close> and \<open>abc\<close> as strings, and 100, 150 and -1 as integers.\<close>

theorem validate_brightness_value_float_range_witness:
  "py_float (PyStr ''50'') = Inr (Finite 50) \<and> (0::rat) \<le> 50 \<and> (50::rat) \<le> 100 \<and>
   validate_brightness_value (PyStr ''50'') = Inr True \<and>
   py_float (PyStr ''abc'') = Inl ValueError \<and>
   validate_brightness_value (PyStr ''abc'') = Inr False \<and>
   validate_brightness_value (PyInt 100) = Inr True \<and>
   validate_brightness_value (PyInt 150) \<noteq> Inr True \<and>
   validate_brightness_value (PyInt (- 1)) \<noteq> Inr True \<and>
   fast_validate_brightness_value (PyStr ''50'')"
  using validate_brightness_value_float_range [of "PyStr ''50''" 100]
    validate_brightness_value_float_range [of "PyStr ''abc''" 150]
    validate_brightness_value_float_range [of "PyStr ''abc''" "- 1"]
  by (simp add: float_of_string_50 float_of_string_abc)

section \<open>The display detector\<close>

lemma detect_displays_eq:
  "fst (detect_displays sh en cs) =
     (if fst (wmi_detect_displays sh cs) @ ddc_detect_displays en = []
      then [fallback_display]
      else fst (wmi_detect_displays sh cs) @ ddc_detect_displays en)"
  by (simp add: detect_displays_def Let_def split: prod.splits)

lemma fast_detect_displays_eq:
  "fst (fast_detect_displays sh en cs) =
     (if fast_enum_detect (fst (fast_wmi_detect sh cs)) en = []
      then [fast_fallback_display]
      else fast_enum_detect (fst (fast_wmi_detect sh cs)) en)"
  by (simp add: fast_detect_displays_def Let_def split: prod.splits)

text \<open>
  Claim C3. For every outcome of the shell queries and of the monitor enumeration,
  \<open>detect_displays\<close> returns a non-empty list; when both strategies yield no record, the
  result is exactly the one fallback record, whose type is \<open>unknown\<close>. Every exception
  of either strategy is a branch that yields no record, so nothing is raised. The same
  holds for the single-file version's detector.
\<close>

theorem detect_displays_never_empty:
  "fst (detect_displays sh en cs) \<noteq> [] \<and>
   (fst (wmi_detect_displays sh cs) = [] \<and> ddc_detect_displays en = [] \<longrightarrow>
      fst (detect_displays sh en cs) = [fallback_display]) \<and>
   di_type fallback_display = ''unknown'' \<and>
   fst (fast_detect_displays sh en cs) \<noteq> [] \<and>
   (fst (fast_wmi_detect sh cs) = [] \<and> enum_monitors en = [] \<longrightarrow>
      fst (fast_detect_displays sh en cs) = [fast_fallback_display]) \<and>
   map_of fast_fallback_display ''type'' = Some (PyStr ''unknown'')"
  by (simp add: detect_displays_eq fast_detect_displays_eq fallback_display_def
      fast_fallback_display_def fast_enum_detect_def)

text \<open>Both queries time out and the enumeration raises before any callback.\<close>

theorem detect_displays_never_empty_witness:
  "fst (wmi_detect_displays (\<lambda>k cmd. TimeoutExpired) []) = [] \<and>
   ddc_detect_displays \<lparr>enum_monitors = [], enum_raised = True\<rparr> = [] \<and>
   fst (detect_displays (\<lambda>k cmd. TimeoutExpired) \<lparr>enum_monitors = [], enum_raised = True\<rparr> [])
     = [fallback_display] \<and>
   fst (fast_wmi_detect (\<lambda>k cmd. TimeoutExpired) []) = [] \<and>
   fst (fast_detect_displays (\<lambda>k cmd. TimeoutExpired) \<lparr>enum_monitors = [], enum_raised = True\<rparr> [])
     = [fast_fallback_display]"
  using detect_displays_never_empty
    [of "\<lambda>k cmd. TimeoutExpired" "\<lparr>enum_monitors = [], enum_raised = True\<rparr>" "[]"]
  by (simp add: wmi_detect_displays_def detect_brightness_methods_def
      detect_current_brightness_def subprocess_run_def ddc_detect_displays_def
      fast_wmi_detect_def Let_def)

text \<open>
  Claim C10. For every integer index, \<open>get_display_by_index\<close> returns the dictionary of
  the display at that position when the index is at least 0 and below the number of
  detected displays, and \<open>None\<close> for every other index, negative or past the end; the
  function has no failing branch.
\<close>

theorem get_display_by_index_total:
  "(0 \<le> i \<and> i < int (length displays) \<longrightarrow>
      get_display_by_index displays i = Some (to_dict (displays ! nat i)) \<and>
      get_display_by_index displays i = Some (get_displays displays ! nat i)) \<and>
   (i < 0 \<or> int (length displays) \<le> i \<longrightarrow> get_display_by_index displays i = None)"
  by (auto simp: get_display_by_index_def get_displays_def)

text \<open>The indices 0, -1 and 1 on the list that holds the fallback display only.\<close>

theorem get_display_by_index_total_witness:
  "(0::int) \<le> 0 \<and> (0::int) < int (length [fallback_display]) \<and>
   get_display_by_index [fallback_display] 0 = Some (to_dict fallback_display) \<and>
   (-1::int) < 0 \<and> get_display_by_index [fallback_display] (-1) = None \<and>
   int (length [fallback_display]) \<le> 1 \<and> get_display_by_index [fallback_display] 1 = None"
  using get_display_by_index_total [of 0 "[fallback_display]"]
    get_display_by_index_total [of "-1" "[fallback_display]"]
    get_display_by_index_total [of 1 "[fallback_display]"]
  by simp

lemma to_dict_fallback:
  "to_dict fallback_display =
     [(''name'', PyStr ''Primary Display''), (''type'', PyStr ''unknown''),
      (''method'', PyStr ''wmi''), (''is_fallback'', PyBool True)]"
  by (simp add: to_dict_def fallback_display_def dict_update_def)

section \<open>The WMI strategy reads the query output\<close>

lemma split_on_nonempty: "split_on c s \<noteq> []"
  by (induction s) (auto split: list.splits)

lemma split_on_length: "2 \<le> length (split_on c s) \<longleftrightarrow> c \<in> set s"
proof (induction s)
  case Nil
  show ?case by simp
next
  case (Cons x s)
  obtain y ys where y: "split_on c s = y # ys"
    using split_on_nonempty[of c s] by (cases "split_on c s") auto
  show ?case using Cons by (auto simp: y)
qed

lemma scan_brightness_lines_Cons:
  "scan_brightness_lines (line # lines) =
     offer_result (line_digits line) (scan_brightness_lines lines)"
proof -
  obtain y ys where y: "split_on (CHR '':'') (strip line) = y # ys"
    using split_on_nonempty[of "CHR '':''" "strip line"]
    by (cases "split_on (CHR '':'') (strip line)") auto
  have len: "CHR '':'' \<in> set (strip line) \<longleftrightarrow> ys \<noteq> []"
    using split_on_length[of "CHR '':''" "strip line"] by (cases ys) (auto simp: y)
  show ?thesis
  proof (cases "CHR '':'' \<in> set (strip line)")
    case True
    then obtain val rest where ys: "ys = val # rest" using len by (cases ys) auto
    have ne: "strip line \<noteq> []" using True by auto
    show ?thesis
      using True ne by (simp add: line_digits_def offer_result_def Let_def y ys)
  next
    case False
    then have ys: "ys = []" using len by simp
    show ?thesis
      using False by (auto simp: line_digits_def offer_result_def Let_def y ys isdigit_def)
  qed
qed

lemma first_index_skip:
  assumes np: "\<not> P l" and "f l = None"
  shows "(\<exists>i < length (l # ls). P ((l # ls) ! i) \<and> (\<forall>j < i. f ((l # ls) ! j) = None)) \<longleftrightarrow>
         (\<exists>i < length ls. P (ls ! i) \<and> (\<forall>j < i. f (ls ! j) = None))" (is "?L \<longleftrightarrow> ?R")
proof
  assume ?L
  then obtain i where i: "i < length (l # ls)" "P ((l # ls) ! i)"
    "\<forall>j < i. f ((l # ls) ! j) = None" by blast
  from i(2) np obtain k where k: "i = Suc k" by (cases i) auto
  have "\<forall>j < k. f (ls ! j) = None"
  proof (intro allI impI)
    fix j assume "j < k"
    then have "Suc j < i" by (simp add: k)
    with i(3) have "f ((l # ls) ! Suc j) = None" by blast
    then show "f (ls ! j) = None" by simp
  qed
  with i(1,2) show ?R unfolding k by auto
next
  assume ?R
  then obtain i where i: "i < length ls" "P (ls ! i)" "\<forall>j < i. f (ls ! j) = None" by blast
  have "\<forall>j < Suc i. f ((l # ls) ! j) = None"
  proof (intro allI impI)
    fix j assume "j < Suc i"
    then show "f ((l # ls) ! j) = None"
      using assms i(3) by (cases j) auto
  qed
  with i(1,2) show ?L by (intro exI[of _ "Suc i"]) auto
qed

lemma first_index_here:
  assumes "f l \<noteq> None"
  shows "(\<exists>i < length (l # ls). P ((l # ls) ! i) \<and> (\<forall>j < i. f ((l # ls) ! j) = None)) \<longleftrightarrow> P l"
    (is "?L \<longleftrightarrow> _")
proof
  assume ?L
  then obtain i where i: "i < length (l # ls)" "P ((l # ls) ! i)"
    "\<forall>j < i. f ((l # ls) ! j) = None" by blast
  have "i = 0"
  proof (rule ccontr)
    assume "i \<noteq> 0"
    then have "0 < i" by simp
    with i(3) have "f ((l # ls) ! 0) = None" by blast
    with assms show False by simp
  qed
  with i(2) show "P l" by simp
next
  assume "P l"
  then show ?L by (intro exI[of _ 0]) auto
qed

lemma scan_brightness_lines_first:
  "scan_brightness_lines lines = Inr (Some v) \<longleftrightarrow>
     (\<exists>i < length lines.
        (\<exists>s. line_digits (lines ! i) = Some s \<and> py_int s = Inr v) \<and>
        (\<forall>j < i. line_digits (lines ! j) = None))"
proof (induction lines)
  case Nil
  show ?case by simp
next
  case (Cons l ls)
  show ?case
  proof (cases "line_digits l")
    case None
    have np: "\<not> (\<exists>s. line_digits l = Some s \<and> py_int s = Inr v)" using None by simp
    show ?thesis
      unfolding first_index_skip[where f = line_digits
          and P = "\<lambda>x. \<exists>s. line_digits x = Some s \<and> py_int s = Inr v", OF np None]
      using Cons None
      by (simp add: scan_brightness_lines_Cons offer_result_def del: scan_brightness_lines.simps)
  next
    case (Some s)
    then have ne: "line_digits l \<noteq> None" by simp
    show ?thesis
      unfolding first_index_here[where f = line_digits
          and P = "\<lambda>x. \<exists>s. line_digits x = Some s \<and> py_int s = Inr v", OF ne]
      using Some
      by (auto simp: scan_brightness_lines_Cons offer_result_def split: sum.splits
               simp del: scan_brightness_lines.simps)
  qed
qed

lemma scan_digit_lines_Cons:
  "scan_digit_lines (line # lines) =
     offer_result (bare_digits line) (scan_digit_lines lines)"
  by (simp add: bare_digits_def offer_result_def)

lemma scan_digit_lines_first:
  "scan_digit_lines lines = Inr (Some v) \<longleftrightarrow>
     (\<exists>i < length lines.
        (\<exists>s. bare_digits (lines ! i) = Some s \<and> py_int s = Inr v) \<and>
        (\<forall>j < i. bare_digits (lines ! j) = None))"
proof (induction lines)
  case Nil
  show ?case by simp
next
  case (Cons l ls)
  show ?case
  proof (cases "bare_digits l")
    case None
    have np: "\<not> (\<exists>s. bare_digits l = Some s \<and> py_int s = Inr v)" using None by simp
    show ?thesis
      unfolding first_index_skip[where f = bare_digits
          and P = "\<lambda>x. \<exists>s. bare_digits x = Some s \<and> py_int s = Inr v", OF np None]
      using Cons None
      by (simp add: scan_digit_lines_Cons offer_result_def del: scan_digit_lines.simps)
  next
    case (Some s)
    then have ne: "bare_digits l \<noteq> None" by simp
    show ?thesis
      unfolding first_index_here[where f = bare_digits
          and P = "\<lambda>x. \<exists>s. bare_digits x = Some s \<and> py_int s = Inr v", OF ne]
      using Some
      by (auto simp: scan_digit_lines_Cons offer_result_def split: sum.splits
               simp del: scan_digit_lines.simps)
  qed
qed

lemma wmi_get_command:
  "create_safe_wmi_command ''root/WMI'' ''WmiMonitorBrightness'' None None =
     [''powershell'', ''-Command'',
      ''Get-WmiObject -Namespace root/WMI -Class WmiMonitorBrightness'']"
  by (simp add: create_safe_wmi_command_def validate_wmi_namespace_def safe_namespaces_def
      validate_wmi_class_def safe_classes_def truthy_str_def sanitize_eq_map
      safe_char_def py_isalpha_char_def py_isdigit_char_def py_isspace_def)

lemma wmi_get_brightness_run:
  "wmi_get_brightness sh display cs =
     (case sh (length cs)
             [''powershell'', ''-Command'',
              ''Get-WmiObject -Namespace root/WMI -Class WmiMonitorBrightness | Select-Object CurrentBrightness''] of
        Completed returncode out err \<Rightarrow>
          if returncode = 0
          then (case scan_brightness_lines (split_on newline (strip out)) of
                  Inl e \<Rightarrow> None
                | Inr brightness \<Rightarrow> brightness)
          else None
      | TimeoutExpired \<Rightarrow> None
      | RunFailed \<Rightarrow> None,
      cs @ [[''powershell'', ''-Command'',
             ''Get-WmiObject -Namespace root/WMI -Class WmiMonitorBrightness | Select-Object CurrentBrightness'']])"
  by (simp add: wmi_get_brightness_def wmi_get_command subprocess_run_def Let_def
           split: run_outcome.splits)

lemma scanned_value:
  "(case scan_brightness_lines lines of Inl e \<Rightarrow> None | Inr brightness \<Rightarrow> brightness) = Some v
     \<longleftrightarrow> scan_brightness_lines lines = Inr (Some v)"
  by (cases "scan_brightness_lines lines") auto

lemma fast_scanned_value:
  "(case scan_digit_lines lines of
      Inr (Some brightness) \<Rightarrow> (brightness, cs)
    | Inr None \<Rightarrow> (50, cs)
    | Inl e \<Rightarrow> (50, cs)) = (b, cs') \<longleftrightarrow>
   cs' = cs \<and> ((\<exists>v. scan_digit_lines lines = Inr (Some v) \<and> b = v) \<or>
               ((\<forall>v. scan_digit_lines lines \<noteq> Inr (Some v)) \<and> b = 50))"
  by (cases "scan_digit_lines lines") (auto split: option.splits)

text \<open>
  Claim C5, amended. For every output of the shell query, the WMI strategy's
  \<open>get_brightness\<close> issues one query and, on return code 0, takes the first output line
  that offers a digit string (the stripped line, or on a line with a colon the stripped
  field between the first and the second colon) and returns the integer \<open>int\<close> makes of
  it: it returns \<open>v\<close> exactly when some line offers a digit string that \<open>int\<close>
  converts to \<open>v\<close> and no earlier line offers one. It returns \<open>None\<close> on a timeout,
  on any other failure of the call, on a non-zero return code, and when no line offers a
  digit string. The single-file version's \<open>get_brightness\<close> runs no query and returns 50
  for a display whose method is not \<open>wmi\<close>; otherwise it runs one query, reads stripped
  digit lines only, returns the value of the first of them, and returns 50 wherever the
  strategy above returns \<open>None\<close>.
\<close>

theorem wmi_get_brightness_first_digits:
  assumes "wmi_get_brightness sh display cs = (r, cs')"
    and "fast_get_brightness sh display cs = (b, cs'')"
  shows "(\<exists>cmd. cs' = cs @ [cmd] \<and>
     (case sh (length cs) cmd of
        Completed returncode out err \<Rightarrow>
          if returncode = 0 then
            (\<forall>v. r = Some v \<longleftrightarrow>
               (\<exists>i < length (split_on newline (strip out)).
                  (\<exists>s. line_digits (split_on newline (strip out) ! i) = Some s \<and>
                       py_int s = Inr v) \<and>
                  (\<forall>j < i. line_digits (split_on newline (strip out) ! j) = None)))
          else r = None
      | TimeoutExpired \<Rightarrow> r = None
      | RunFailed \<Rightarrow> r = None)) \<and>
   (display = [] \<or> dict_get display ''method'' PyNone \<noteq> PyStr ''wmi'' \<longrightarrow>
      b = 50 \<and> cs'' = cs) \<and>
   (display \<noteq> [] \<and> dict_get display ''method'' PyNone = PyStr ''wmi'' \<longrightarrow>
      (\<exists>cmd. cs'' = cs @ [cmd] \<and>
        (case sh (length cs) cmd of
           Completed returncode out err \<Rightarrow>
             if returncode = 0 then
               (\<forall>v. (\<exists>i < length (split_on newline (strip out)).
                        (\<exists>s. bare_digits (split_on newline (strip out) ! i) = Some s \<and>
                             py_int s = Inr v) \<and>
                        (\<forall>j < i. bare_digits (split_on newline (strip out) ! j) = None))
                     \<longrightarrow> b = v) \<and>
               ((\<forall>v. \<not> (\<exists>i < length (split_on newline (strip out)).
                        (\<exists>s. bare_digits (split_on newline (strip out) ! i) = Some s \<and>
                             py_int s = Inr v) \<and>
                        (\<forall>j < i. bare_digits (split_on newline (strip out) ! j) = None)))
                     \<longrightarrow> b = 50)
             else b = 50
         | TimeoutExpired \<Rightarrow> b = 50
         | RunFailed \<Rightarrow> b = 50)))"
proof (intro conjI)
  let ?cmd = "[''powershell'', ''-Command'',
    ''Get-WmiObject -Namespace root/WMI -Class WmiMonitorBrightness | Select-Object CurrentBrightness'']"
  from assms(1) have cs': "cs' = cs @ [?cmd]"
    by (simp add: wmi_get_brightness_run)
  from assms(1) have r: "r = (case sh (length cs) ?cmd of
        Completed returncode out err \<Rightarrow>
          if returncode = 0
          then (case scan_brightness_lines (split_on newline (strip out)) of
                  Inl e \<Rightarrow> None
                | Inr brightness \<Rightarrow> brightness)
          else None
      | TimeoutExpired \<Rightarrow> None
      | RunFailed \<Rightarrow> None)"
    by (simp add: wmi_get_brightness_run)
  have "case sh (length cs) ?cmd of
        Completed returncode out err \<Rightarrow>
          if returncode = 0 then
            (\<forall>v. r = Some v \<longleftrightarrow>
               (\<exists>i < length (split_on newline (strip out)).
                  (\<exists>s. line_digits (split_on newline (strip out) ! i) = Some s \<and>
                       py_int s = Inr v) \<and>
                  (\<forall>j < i. line_digits (split_on newline (strip out) ! j) = None)))
          else r = None
      | TimeoutExpired \<Rightarrow> r = None
      | RunFailed \<Rightarrow> r = None"
    unfolding r
    by (cases "sh (length cs) ?cmd")
       (simp_all add: scanned_value scan_brightness_lines_first)
  with cs' show "\<exists>cmd. cs' = cs @ [cmd] \<and>
     (case sh (length cs) cmd of
        Completed returncode out err \<Rightarrow>
          if returncode = 0 then
            (\<forall>v. r = Some v \<longleftrightarrow>
               (\<exists>i < length (split_on newline (strip out)).
                  (\<exists>s. line_digits (split_on newline (strip out) ! i) = Some s \<and>
                       py_int s = Inr v) \<and>
                  (\<forall>j < i. line_digits (split_on newline (strip out) ! j) = None)))
          else r = None
      | TimeoutExpired \<Rightarrow> r = None
      | RunFailed \<Rightarrow> r = None)" by blast
next
  show "display = [] \<or> dict_get display ''method'' PyNone \<noteq> PyStr ''wmi'' \<longrightarrow>
      b = 50 \<and> cs'' = cs"
    using assms(2) by (auto simp: fast_get_brightness_def)
next
  let ?cmd = "[''powershell'', ''-Command'',
    ''Get-WmiObject -Namespace root/WMI -Class WmiMonitorBrightness | ForEach-Object {$_.CurrentBrightness}'']"
  show "display \<noteq> [] \<and> dict_get display ''method'' PyNone = PyStr ''wmi'' \<longrightarrow>
      (\<exists>cmd. cs'' = cs @ [cmd] \<and>
        (case sh (length cs) cmd of
           Completed returncode out err \<Rightarrow>
             if returncode = 0 then
               (\<forall>v. (\<exists>i < length (split_on newline (strip out)).
                        (\<exists>s. bare_digits (split_on newline (strip out) ! i) = Some s \<and>
                             py_int s = Inr v) \<and>
                        (\<forall>j < i. bare_digits (split_on newline (strip out) ! j) = None))
                     \<longrightarrow> b = v) \<and>
               ((\<forall>v. \<not> (\<exists>i < length (split_on newline (strip out)).
                        (\<exists>s. bare_digits (split_on newline (strip out) ! i) = Some s \<and>
                             py_int s = Inr v) \<and>
                        (\<forall>j < i. bare_digits (split_on newline (strip out) ! j) = None)))
                     \<longrightarrow> b = 50)
             else b = 50
         | TimeoutExpired \<Rightarrow> b = 50
         | RunFailed \<Rightarrow> b = 50))"
  proof
    assume w: "display \<noteq> [] \<and> dict_get display ''method'' PyNone = PyStr ''wmi''"
    have empty: "scan_digit_lines (split_on newline []) = Inr None"
      by (simp add: isdigit_def strip_def)
    from assms(2) w have run:
      "(case sh (length cs) ?cmd of
          Completed returncode out err \<Rightarrow>
            (if returncode = 0 \<and> strip out \<noteq> []
             then (case scan_digit_lines (split_on newline (strip out)) of
                     Inr (Some brightness) \<Rightarrow> (brightness, cs @ [?cmd])
                   | Inr None \<Rightarrow> (50, cs @ [?cmd])
                   | Inl e \<Rightarrow> (50, cs @ [?cmd]))
             else (50, cs @ [?cmd]))
        | TimeoutExpired \<Rightarrow> (50, cs @ [?cmd])
        | RunFailed \<Rightarrow> (50, cs @ [?cmd])) = (b, cs'')"
      by (simp add: fast_get_brightness_def subprocess_run_def Let_def)
    have cs'': "cs'' = cs @ [?cmd]"
      using run by (cases "sh (length cs) ?cmd") (auto simp: fast_scanned_value split: if_splits)
    have "case sh (length cs) ?cmd of
           Completed returncode out err \<Rightarrow>
             if returncode = 0 then
               (\<forall>v. scan_digit_lines (split_on newline (strip out)) = Inr (Some v) \<longrightarrow> b = v) \<and>
               ((\<forall>v. scan_digit_lines (split_on newline (strip out)) \<noteq> Inr (Some v)) \<longrightarrow> b = 50)
             else b = 50
         | TimeoutExpired \<Rightarrow> b = 50
         | RunFailed \<Rightarrow> b = 50"
    proof (cases "sh (length cs) ?cmd")
      case (Completed rc out err)
      show ?thesis
      proof (cases "strip out = []")
        case True
        with run Completed empty show ?thesis by (auto split: if_splits)
      next
        case False
        with run Completed show ?thesis
          by (auto simp: fast_scanned_value split: if_splits)
      qed
    next
      case TimeoutExpired
      with run show ?thesis by simp
    next
      case RunFailed
      with run show ?thesis by simp
    qed
    then have "case sh (length cs) ?cmd of
           Completed returncode out err \<Rightarrow>
             if returncode = 0 then
               (\<forall>v. (\<exists>i < length (split_on newline (strip out)).
                        (\<exists>s. bare_digits (split_on newline (strip out) ! i) = Some s \<and>
                             py_int s = Inr v) \<and>
                        (\<forall>j < i. bare_digits (split_on newline (strip out) ! j) = None))
                     \<longrightarrow> b = v) \<and>
               ((\<forall>v. \<not> (\<exists>i < length (split_on newline (strip out)).
                        (\<exists>s. bare_digits (split_on newline (strip out) ! i) = Some s \<and>
                             py_int s = Inr v) \<and>
                        (\<forall>j < i. bare_digits (split_on newline (strip out) ! j) = None)))
                     \<longrightarrow> b = 50)
             else b = 50
         | TimeoutExpired \<Rightarrow> b = 50
         | RunFailed \<Rightarrow> b = 50"
      by (simp only: scan_digit_lines_first)
    with cs'' show "\<exists>cmd. cs'' = cs @ [cmd] \<and>
        (case sh (length cs) cmd of
           Completed returncode out err \<Rightarrow>
             if returncode = 0 then
               (\<forall>v. (\<exists>i < length (split_on newline (strip out)).
                        (\<exists>s. bare_digits (split_on newline (strip out) ! i) = Some s \<and>
                             py_int s = Inr v) \<and>
                        (\<forall>j < i. bare_digits (split_on newline (strip out) ! j) = None))
                     \<longrightarrow> b = v) \<and>
               ((\<forall>v. \<not> (\<exists>i < length (split_on newline (strip out)).
                        (\<exists>s. bare_digits (split_on newline (strip out) ! i) = Some s \<and>
                             py_int s = Inr v) \<and>
                        (\<forall>j < i. bare_digits (split_on newline (strip out) ! j) = None)))
                     \<longrightarrow> b = 50)
             else b = 50
         | TimeoutExpired \<Rightarrow> b = 50
         | RunFailed \<Rightarrow> b = 50)" by blast
  qed
qed

lemma py_int_72: "py_int ''72'' = Inr 72"
  by (simp add: py_int_def all_decimal_def py_isdigit_char_def int_max_str_digits_def
      int_of_digits_def digit_val_def)

lemma py_int_12: "py_int ''12'' = Inr 12"
  by (simp add: py_int_def all_decimal_def py_isdigit_char_def int_max_str_digits_def
      int_of_digits_def digit_val_def)

lemma line_digits_72: "line_digits ''CurrentBrightness : 72'' = Some ''72''"
  by (simp add: line_digits_def strip_def py_isspace_def isdigit_def str_isdigit_char_def
      py_isdigit_char_def)

lemma bare_digits_72: "bare_digits ''CurrentBrightness : 72'' = None"
  by (simp add: bare_digits_def strip_def py_isspace_def isdigit_def str_isdigit_char_def
      py_isdigit_char_def)

lemma lines_72:
  "split_on newline (strip ''CurrentBrightness : 72'') = [''CurrentBrightness : 72'']"
  by (simp add: strip_def py_isspace_def newline_def)

text \<open>
  The output \<open>CurrentBrightness : 72\<close> with return code 0 yields 72 after one query; the
  single-file version answers 50 on it.
\<close>

theorem wmi_get_brightness_first_digits_witness:
  "wmi_get_brightness (\<lambda>k cmd. Completed 0 ''CurrentBrightness : 72'' [])
     [(''name'', PyStr ''Laptop''), (''type'', PyStr ''internal''), (''method'', PyStr ''wmi'')] []
   = (Some 72,
      [[''powershell'', ''-Command'',
        ''Get-WmiObject -Namespace root/WMI -Class WmiMonitorBrightness | Select-Object CurrentBrightness'']]) \<and>
   fst (fast_get_brightness (\<lambda>k cmd. Completed 0 ''CurrentBrightness : 72'' [])
     [(''name'', PyStr ''Laptop''), (''type'', PyStr ''internal''), (''method'', PyStr ''wmi'')] [])
   = 50"
proof -
  let ?sh = "\<lambda>(k::nat) (cmd::string list). Completed 0 ''CurrentBrightness : 72'' []"
  let ?d = "[(''name'', PyStr ''Laptop''), (''type'', PyStr ''internal''), (''method'', PyStr ''wmi'')]"
  obtain r cs' where run: "wmi_get_brightness ?sh ?d [] = (r, cs')"
    by (cases "wmi_get_brightness ?sh ?d []")
  obtain b cs'' where frun: "fast_get_brightness ?sh ?d [] = (b, cs'')"
    by (cases "fast_get_brightness ?sh ?d []")
  note t = wmi_get_brightness_first_digits [OF run frun]
  from t have "r = Some 72 \<longleftrightarrow>
          (\<exists>i < length [''CurrentBrightness : 72''].
             (\<exists>s. line_digits ([''CurrentBrightness : 72''] ! i) = Some s \<and> py_int s = Inr 72) \<and>
             (\<forall>j < i. line_digits ([''CurrentBrightness : 72''] ! j) = None))"
    by (auto simp: lines_72)
  then have r: "r = Some 72" by (simp add: line_digits_72 py_int_72)
  have d: "?d \<noteq> [] \<and> dict_get ?d ''method'' PyNone = PyStr ''wmi''"
    by (simp add: dict_get_def)
  from t d have "(\<forall>v. \<not> (\<exists>i < length [''CurrentBrightness : 72''].
             (\<exists>s. bare_digits ([''CurrentBrightness : 72''] ! i) = Some s \<and> py_int s = Inr v) \<and>
             (\<forall>j < i. bare_digits ([''CurrentBrightness : 72''] ! j) = None))) \<longrightarrow> b = 50"
    by (auto simp: lines_72)
  then have b: "b = 50" by (simp add: bare_digits_72)
  have "cs' = [[''powershell'', ''-Command'',
        ''Get-WmiObject -Namespace root/WMI -Class WmiMonitorBrightness | Select-Object CurrentBrightness'']]"
    using run by (simp add: wmi_get_brightness_run)
  with r b run frun show ?thesis by simp
qed

lemma lines_time:
  "split_on newline (strip (''Time: 12:30'' @ [CHR 0x0A] @ ''72'')) = [''Time: 12:30'', ''72'']"
  by (simp add: strip_def py_isspace_def newline_def)

lemma line_digits_time: "line_digits ''Time: 12:30'' = Some ''12''"
  by (simp add: line_digits_def strip_def py_isspace_def isdigit_def str_isdigit_char_def
      py_isdigit_char_def)

lemma spec_line_value_time: "spec_line_value ''Time: 12:30'' = None"
  by (simp add: spec_line_value_def spec_integer_def strip_def py_isspace_def all_decimal_def
      py_isdigit_char_def)

lemma spec_line_value_example: "spec_line_value ''CurrentBrightness : 72'' = Some 72"
  by (simp add: spec_line_value_def spec_integer_def strip_def py_isspace_def all_decimal_def
      py_isdigit_char_def int_of_digits_def digit_val_def)

lemma spec_line_value_72: "spec_line_value ''72'' = Some 72"
  by (simp add: spec_line_value_def spec_integer_def strip_def py_isspace_def all_decimal_def
      py_isdigit_char_def int_of_digits_def digit_val_def)

text \<open>
  Claim C5, as stated, fails: on the output lines \<open>Time: 12:30\<close> and \<open>72\<close> the first
  bare integer line or \<open>Key : Value\<close> line with an integer value is the second line,
  with 72, since the value \<open>12:30\<close> of the first line is no integer; the strategy reads
  the field between the colons of the first line and returns 12.
\<close>

theorem wmi_get_brightness_second_field:
  "fst (wmi_get_brightness (\<lambda>k cmd. Completed 0 (''Time: 12:30'' @ [CHR 0x0A] @ ''72'') [])
     [(''name'', PyStr ''Laptop''), (''type'', PyStr ''internal''), (''method'', PyStr ''wmi'')] [])
   = Some 12 \<and>
   split_on newline (strip (''Time: 12:30'' @ [CHR 0x0A] @ ''72'')) = [''Time: 12:30'', ''72''] \<and>
   spec_line_value ''Time: 12:30'' = None \<and>
   spec_first_match [''Time: 12:30'', ''72''] = Some 72"
proof -
  have code: "fst (wmi_get_brightness (\<lambda>k cmd. Completed 0 (''Time: 12:30'' @ [CHR 0x0A] @ ''72'') [])
     [(''name'', PyStr ''Laptop''), (''type'', PyStr ''internal''), (''method'', PyStr ''wmi'')] [])
   = Some 12"
    by (simp add: wmi_get_brightness_run strip_def py_isspace_def newline_def isdigit_def
        str_isdigit_char_def py_isdigit_char_def py_int_def all_decimal_def
        int_max_str_digits_def int_of_digits_def digit_val_def Let_def)
  have spec: "spec_first_match [''Time: 12:30'', ''72''] = Some 72"
    by (simp add: spec_first_match_def spec_line_value_time spec_line_value_72)
  from code spec lines_time spec_line_value_time show ?thesis by (simp only: simp_thms)
qed

section \<open>The placeholder strategy\<close>

text \<open>
  Claim C8, as stated, fails: the placeholder's \<open>set_brightness\<close> validates the value
  before it reports success, and refuses 150 on an external monitor.
\<close>

theorem ddc_set_brightness_rejects_150:
  "fst (ddc_set_brightness
          [(''name'', PyStr ''External Monitor 1''), (''type'', PyStr ''external''),
           (''method'', PyStr ''ddc'')] 150 []) = Inr False"
  by (simp add: ddc_set_brightness_def validate_int_small)

text \<open>
  Claim C8, amended. For every display record, the placeholder strategy's
  \<open>get_brightness\<close> returns the constant 50; its \<open>set_brightness\<close> never performs an
  external call, reports success exactly when the value lies in 0..100, and reports
  failure for every other value a binary64 represents exactly.
\<close>

theorem ddc_placeholder:
  "ddc_get_brightness display cs = (Some 50, cs) \<and>
   snd (ddc_set_brightness display b cs) = cs \<and>
   (fst (ddc_set_brightness display b cs) = Inr True \<longleftrightarrow> 0 \<le> b \<and> b \<le> 100) \<and>
   (- (2 ^ 53) < b \<and> b < 2 ^ 53 \<and> (b < 0 \<or> 100 < b) \<longrightarrow>
      fst (ddc_set_brightness display b cs) = Inr False)"
proof (intro conjI impI)
  show "ddc_get_brightness display cs = (Some 50, cs)"
    by (simp add: ddc_get_brightness_def)
  show "snd (ddc_set_brightness display b cs) = cs"
    by (simp add: ddc_set_brightness_def split: sum.splits)
  show "fst (ddc_set_brightness display b cs) = Inr True \<longleftrightarrow> 0 \<le> b \<and> b \<le> 100"
    using validate_int_True_iff[of b]
    by (auto simp: ddc_set_brightness_def split: sum.splits)
next
  assume "- (2 ^ 53) < b \<and> b < 2 ^ 53 \<and> (b < 0 \<or> 100 < b)"
  then show "fst (ddc_set_brightness display b cs) = Inr False"
    by (auto simp: ddc_set_brightness_def validate_int_small)
qed

text \<open>The values 50 and 150 on a display of method \<open>ddc\<close>.\<close>

theorem ddc_placeholder_witness:
  "ddc_get_brightness [(''method'', PyStr ''ddc'')] [] = (Some 50, []) \<and>
   fst (ddc_set_brightness [(''method'', PyStr ''ddc'')] 50 []) = Inr True \<and>
   (0::int) \<le> 50 \<and> (50::int) \<le> 100 \<and>
   - (2 ^ 53) < (150::int) \<and> (150::int) < 2 ^ 53 \<and> (100::int) < 150 \<and>
   fst (ddc_set_brightness [(''method'', PyStr ''ddc'')] 150 []) = Inr False \<and>
   snd (ddc_set_brightness [(''method'', PyStr ''ddc'')] 150 []) = []"
  using ddc_placeholder [of "[(''method'', PyStr ''ddc'')]" "[]" 50]
    ddc_placeholder [of "[(''method'', PyStr ''ddc'')]" "[]" 150]
  by simp

section \<open>The capability self-test\<close>

text \<open>
  Claim C7. For every display record and every registry of strategies,
  \<open>test_brightness_support\<close> probes \<open>set_brightness\<close> only if the preceding
  \<open>get_brightness\<close> returned a value, and then it is one call of the strategy's
  \<open>set_brightness\<close> on the same display with exactly the value that was read, from the
  state the read left: the final state and the flag are those of that call. When no
  strategy is registered the state is unchanged, and when the read raised or returned
  \<open>None\<close> the final state is the one the read left.
\<close>

theorem test_brightness_support_set_argument:
  assumes "test_brightness_support reg display cs = (info, cs')"
  shows "(controllers_get reg (dict_get display ''method'' (PyStr ''wmi'')) = None \<and>
            cs' = cs \<and>
            \<not> si_method_available info \<and> \<not> si_get_brightness info \<and> \<not> si_set_brightness info) \<or>
         (\<exists>controller res cs1.
            controllers_get reg (dict_get display ''method'' (PyStr ''wmi'')) = Some controller \<and>
            ctl_get controller display cs = (res, cs1) \<and> (\<forall>v. res \<noteq> Inr (Some v)) \<and>
            cs' = cs1 \<and>
            si_method_available info \<and> \<not> si_get_brightness info \<and> \<not> si_set_brightness info) \<or>
         (\<exists>controller current cs1 outcome.
            controllers_get reg (dict_get display ''method'' (PyStr ''wmi'')) = Some controller \<and>
            ctl_get controller display cs = (Inr (Some current), cs1) \<and>
            ctl_set controller display current cs1 = (outcome, cs') \<and>
            si_method_available info \<and> si_get_brightness info \<and>
            (si_set_brightness info \<longleftrightarrow> outcome = Inr True))"
proof (cases "controllers_get reg (dict_get display ''method'' (PyStr ''wmi''))")
  case None
  with assms show ?thesis
    by (auto simp: test_brightness_support_def Let_def)
next
  case (Some controller)
  obtain res cs1 where g: "ctl_get controller display cs = (res, cs1)"
    by (cases "ctl_get controller display cs")
  show ?thesis
  proof (cases "\<exists>v. res = Inr (Some v)")
    case False
    then have "test_brightness_support reg display cs =
        (\<lparr>si_get_brightness = False, si_set_brightness = False, si_method_available = True\<rparr>, cs1)"
      using Some g
      by (cases res) (auto simp: test_brightness_support_def Let_def split: option.splits)
    with assms have "cs' = cs1" "si_method_available info" "\<not> si_get_brightness info"
      "\<not> si_set_brightness info" by auto
    with Some g False show ?thesis by blast
  next
    case True
    then obtain current where res: "res = Inr (Some current)" by blast
    obtain outcome cs2 where st: "ctl_set controller display current cs1 = (outcome, cs2)"
      by (cases "ctl_set controller display current cs1")
    have "test_brightness_support reg display cs =
        (\<lparr>si_get_brightness = True, si_set_brightness = (outcome = Inr True),
          si_method_available = True\<rparr>, cs2)"
      using Some g res st
      by (cases outcome) (auto simp: test_brightness_support_def Let_def)
    with assms have "cs' = cs2" "si_method_available info" "si_get_brightness info"
      "si_set_brightness info \<longleftrightarrow> outcome = Inr True" by auto
    with Some g res st show ?thesis by blast
  qed
qed

text \<open>
  The outcome does not depend on what \<open>set_brightness\<close> would do with any other value:
  two strategies that read alike and set alike at the value read give the same outcome.
\<close>

lemma test_brightness_support_other_values:
  assumes "controllers_get reg (dict_get display ''method'' (PyStr ''wmi'')) = Some c"
    and "controllers_get reg' (dict_get display ''method'' (PyStr ''wmi'')) = Some c'"
    and "ctl_get c' display cs = ctl_get c display cs"
    and "\<And>current cs1. ctl_get c display cs = (Inr (Some current), cs1) \<Longrightarrow>
           ctl_set c' display current cs1 = ctl_set c display current cs1"
  shows "test_brightness_support reg' display cs = test_brightness_support reg display cs"
proof -
  obtain res cs1 where g: "ctl_get c display cs = (res, cs1)"
    by (cases "ctl_get c display cs")
  show ?thesis
  proof (cases "\<exists>v. res = Inr (Some v)")
    case True
    then obtain current where res: "res = Inr (Some current)" by blast
    from assms(4)[of current cs1] g res
    have "ctl_set c' display current cs1 = ctl_set c display current cs1" by simp
    with assms(1,2,3) g res show ?thesis
      by (simp add: test_brightness_support_def Let_def)
  next
    case False
    with assms(1,2,3) g show ?thesis
      by (cases res) (auto simp: test_brightness_support_def Let_def split: option.splits)
  qed
qed

lemma str_of_int_72: "str_of_int 72 = ''72''"
  by (simp add: str_of_int_def str_of_nat.simps)

lemma wmi_set_command_72:
  "create_safe_wmi_command ''root/WMI'' ''WmiMonitorBrightnessMethods''
     (Some ''WmiSetBrightness'') (Some ''1,72'') =
     [''powershell'', ''-Command'',
      ''(Get-WmiObject -Namespace root/WMI -Class WmiMonitorBrightnessMethods).WmiSetBrightness(1,72)'']"
  by (simp add: create_safe_wmi_command_def validate_wmi_namespace_def safe_namespaces_def
      validate_wmi_class_def safe_classes_def truthy_str_def sanitize_eq_map
      safe_char_def py_isalpha_char_def py_isdigit_char_def py_isspace_def)

lemma wmi_get_72:
  "wmi_get_brightness (\<lambda>k cmd. Completed 0 ''CurrentBrightness : 72'' []) display []
   = (Some 72,
      [[''powershell'', ''-Command'',
        ''Get-WmiObject -Namespace root/WMI -Class WmiMonitorBrightness | Select-Object CurrentBrightness'']])"
proof -
  have "scan_brightness_lines [''CurrentBrightness : 72''] = Inr (Some 72)"
    by (simp only: scan_brightness_lines_Cons line_digits_72 offer_result_def option.case
        py_int_72 sum.case)
  then show ?thesis
    by (simp add: wmi_get_brightness_run lines_72 del: scan_brightness_lines.simps)
qed

text \<open>
  With the registered strategies and a shell that answers \<open>CurrentBrightness : 72\<close>, the
  self-test on a display of method \<open>wmi\<close> runs the query and then the setter command
  with 72.
\<close>

theorem test_brightness_support_set_argument_witness:
  "controllers_get (controllers (\<lambda>k cmd. Completed 0 ''CurrentBrightness : 72'' []))
     (dict_get [(''name'', PyStr ''Laptop''), (''type'', PyStr ''internal''), (''method'', PyStr ''wmi'')]
        ''method'' (PyStr ''wmi''))
     = Some (wmi_controller (\<lambda>k cmd. Completed 0 ''CurrentBrightness : 72'' [])) \<and>
   ctl_get (wmi_controller (\<lambda>k cmd. Completed 0 ''CurrentBrightness : 72'' []))
     [(''name'', PyStr ''Laptop''), (''type'', PyStr ''internal''), (''method'', PyStr ''wmi'')] []
     = (Inr (Some 72),
        [[''powershell'', ''-Command'',
          ''Get-WmiObject -Namespace root/WMI -Class WmiMonitorBrightness | Select-Object CurrentBrightness'']]) \<and>
   test_brightness_support (controllers (\<lambda>k cmd. Completed 0 ''CurrentBrightness : 72'' []))
     [(''name'', PyStr ''Laptop''), (''type'', PyStr ''internal''), (''method'', PyStr ''wmi'')] []
     = (\<lparr>si_get_brightness = True, si_set_brightness = True, si_method_available = True\<rparr>,
        [[''powershell'', ''-Command'',
          ''Get-WmiObject -Namespace root/WMI -Class WmiMonitorBrightness | Select-Object CurrentBrightness''],
         [''powershell'', ''-Command'',
          ''(Get-WmiObject -Namespace root/WMI -Class WmiMonitorBrightnessMethods).WmiSetBrightness(1,72)'']])"
proof -
  let ?sh = "\<lambda>(k::nat) (cmd::string list). Completed 0 ''CurrentBrightness : 72'' []"
  let ?d = "[(''name'', PyStr ''Laptop''), (''type'', PyStr ''internal''), (''method'', PyStr ''wmi'')]"
  let ?g = "[''powershell'', ''-Command'',
          ''Get-WmiObject -Namespace root/WMI -Class WmiMonitorBrightness | Select-Object CurrentBrightness'']"
  let ?s = "[''powershell'', ''-Command'',
          ''(Get-WmiObject -Namespace root/WMI -Class WmiMonitorBrightnessMethods).WmiSetBrightness(1,72)'']"
  have reg: "controllers_get (controllers ?sh) (dict_get ?d ''method'' (PyStr ''wmi''))
      = Some (wmi_controller ?sh)"
    by (simp add: controllers_def controllers_get_def dict_get_def)
  have get: "ctl_get (wmi_controller ?sh) ?d [] = (Inr (Some 72), [?g])"
    by (simp add: wmi_controller_def wmi_get_72)
  have set: "ctl_set (wmi_controller ?sh) ?d 72 [?g] = (Inr True, [?g, ?s])"
    by (simp add: wmi_controller_def wmi_set_brightness_def validate_int_in_range
        str_of_int_72 wmi_set_command_72 subprocess_run_def)
  obtain info cs' where run: "test_brightness_support (controllers ?sh) ?d [] = (info, cs')"
    by (cases "test_brightness_support (controllers ?sh) ?d []")
  from test_brightness_support_set_argument [OF run] reg get set
  have "cs' = [?g, ?s]" "si_method_available info" "si_get_brightness info" "si_set_brightness info"
    by auto
  then have "info = \<lparr>si_get_brightness = True, si_set_brightness = True, si_method_available = True\<rparr>"
    by (cases info) simp
  with \<open>cs' = [?g, ?s]\<close> run reg get show ?thesis by simp
qed

section \<open>The controller validates before it dispatches\<close>







section \<open>Displays without a registered strategy\<close>

text \<open>
  With no strategy registered for the display's method, neither operation invokes an
  external process, and \<open>set_brightness\<close> does not report success.
\<close>

lemma unregistered_strategy:
  assumes "controllers_get reg (dict_get d ''method'' (PyStr ''wmi'')) = None"
  shows "get_brightness reg d cs = (None, cs)"
    and "snd (set_brightness reg d b cs) = cs"
    and "fst (set_brightness reg d b cs) \<noteq> Inr True"
  using assms
  by (auto simp: get_brightness_def set_brightness_def Let_def split: sum.splits)

text \<open>
  Claim C4 at a display of the unregistered method \<open>hdmi\<close>: \<open>get_brightness\<close> returns
  \<open>None\<close> and \<open>set_brightness\<close> returns false for the value 150, both without an
  external process invocation, as the claim says; for the float infinity, or the string
  \<open>inf\<close>, \<open>set_brightness\<close> does not return false: \<open>int(float(value))\<close> raises
  \<open>OverflowError\<close>, which the handler for \<open>ValueError\<close> and \<open>TypeError\<close> lets through.
\<close>

theorem set_brightness_unregistered_overflow:
  "controllers_get (controllers sh) (PyStr ''hdmi'') = None \<and>
   get_brightness (controllers sh)
     [(''name'', PyStr ''Projector''), (''type'', PyStr ''external''), (''method'', PyStr ''hdmi'')] cs
     = (None, cs) \<and>
   set_brightness (controllers sh)
     [(''name'', PyStr ''Projector''), (''type'', PyStr ''external''), (''method'', PyStr ''hdmi'')]
     (PyInt 150) cs = (Inr False, cs) \<and>
   set_brightness (controllers sh)
     [(''name'', PyStr ''Projector''), (''type'', PyStr ''external''), (''method'', PyStr ''hdmi'')]
     (PyFloat PosInf) cs = (Inl OverflowError, cs) \<and>
   set_brightness (controllers sh)
     [(''name'', PyStr ''Projector''), (''type'', PyStr ''external''), (''method'', PyStr ''hdmi'')]
     (PyStr ''inf'') cs = (Inl OverflowError, cs)"
proof -
  have inf: "float_of_string ''inf'' = Inr PosInf"
    by (simp add: float_of_string_def c_strip_def c_isspace_def py_isdigit_char_def
        lower_char_def Let_def)
  have i150: "int_of_float_of (PyInt 150) = Inr 150"
    by (rule int_of_float_of_int) simp_all
  show ?thesis
    by (simp add: set_brightness_def get_brightness_def int_of_float_of_def[of "PyFloat PosInf"]
        int_of_float_of_def[of "PyStr ''inf''"] inf i150 validate_int_small
        controllers_def controllers_get_def dict_get_def)
qed

text \<open>
  The single-file version keeps no registry: a display whose method is not \<open>wmi\<close> is
  answered with the default 50, without an external process invocation.
\<close>

lemma fast_get_brightness_default:
  "dict_get d ''method'' PyNone \<noteq> PyStr ''wmi'' \<Longrightarrow> fast_get_brightness sh d cs = (50, cs)"
  by (simp add: fast_get_brightness_def)

end
